theory Spec2Isabelle
  imports Main
begin

section \<open>Data model (pkg/models)\<close>

text \<open>
  Go strings are byte sequences and so are HOL strings. Go's \<open>int\<close> is a 64-bit integer;
  no arithmetic is done on a port, so it is an \<open>int\<close> here. A timestamp is the number of
  seconds of SQLite's \<open>CURRENT_TIMESTAMP\<close>; the textual form in which the column is stored and
  parsed back is left out.
\<close>

type_synonym time = nat

record Domain =
  Domain :: string
  IP :: string
  Port :: int
  Protocol :: string
  CreatedAt :: time
  UpdatedAt :: time

record CreateDomainRequest =
  req_Domain :: string
  req_IP :: string
  req_Port :: int
  req_Protocol :: string

record UpdateDomainRequest =
  upd_IP :: string
  upd_Port :: int
  upd_Protocol :: string

section \<open>Errors\<close>

text \<open>
  Go errors as values. \<open>ErrConstraintUnique\<close> is the driver's error for a violated primary key
  of table \<open>domains\<close>, \<open>ErrStorage\<close> any other failure of the storage with the driver's message,
  \<open>Errorf m\<close> is \<open>fmt.Errorf(m)\<close> and \<open>Wrapf m e\<close> is \<open>fmt.Errorf(m + ": %w", e)\<close>.
  \<open>Error\<close> is the method \<open>err.Error()\<close>; the wording of the driver's constraint message is
  the driver's own and nothing below depends on it.
\<close>

datatype error =
    ErrConstraintUnique
  | ErrStorage string
  | Errorf string
  | Wrapf string error

fun Error :: "error \<Rightarrow> string" where
  "Error ErrConstraintUnique = ''constraint failed: UNIQUE constraint failed: domains.domain (1555)''"
| "Error (ErrStorage m) = m"
| "Error (Errorf m) = m"
| "Error (Wrapf m e) = m @ '': '' @ Error e"

section \<open>The registry (internal/database/db.go)\<close>

text \<open>
  Table \<open>domains\<close> has the primary key \<open>domain\<close>, so it is a map from the key to the other
  columns. The storage can fail at any statement: \<open>faults\<close> lists what the next statements
  meet, \<open>None\<close> (or the end of the list) for a statement that the storage carries out and
  \<open>Some m\<close> for one that fails with the driver's message \<open>m\<close>.
\<close>

record row =
  col_ip :: string
  col_port :: int
  col_protocol :: string
  col_created_at :: time
  col_updated_at :: time

record DB =
  domains_tbl :: "string \<rightharpoonup> row"
  faults :: "string option list"

definition next_fault :: "DB \<Rightarrow> string option \<times> DB" where
  "next_fault db = (case faults db of [] \<Rightarrow> (None, db) | f # fs \<Rightarrow> (f, db\<lparr>faults := fs\<rparr>))"

text \<open>\<open>SELECT domain, ip, port, protocol, created_at, updated_at FROM domains WHERE domain = ?\<close>\<close>

definition query_row :: "DB \<Rightarrow> string \<Rightarrow> (error + row option) \<times> DB" where
  "query_row db d =
     (case next_fault db of
        (Some m, db') \<Rightarrow> (Inl (ErrStorage m), db')
      | (None, db') \<Rightarrow> (Inr (domains_tbl db' d), db'))"

text \<open>\<open>INSERT INTO domains (domain, ip, port, protocol) VALUES (?, ?, ?, ?)\<close>; both timestamps
  take the column default \<open>CURRENT_TIMESTAMP\<close>.\<close>

definition exec_insert :: "DB \<Rightarrow> string \<Rightarrow> string \<Rightarrow> int \<Rightarrow> string \<Rightarrow> time \<Rightarrow> error option \<times> DB" where
  "exec_insert db d i p proto now =
     (case next_fault db of
        (Some m, db') \<Rightarrow> (Some (ErrStorage m), db')
      | (None, db') \<Rightarrow>
          (case domains_tbl db' d of
             Some r \<Rightarrow> (Some ErrConstraintUnique, db')
           | None \<Rightarrow>
               (None, db'\<lparr>domains_tbl := (domains_tbl db')(d \<mapsto>
                  \<lparr>col_ip = i, col_port = p, col_protocol = proto, col_created_at = now,
                    col_updated_at = now\<rparr>)\<rparr>)))"

text \<open>\<open>UPDATE domains SET ip = ?, port = ?, protocol = ?, updated_at = CURRENT_TIMESTAMP
  WHERE domain = ?\<close>, with the number of rows affected.\<close>

definition exec_update :: "DB \<Rightarrow> string \<Rightarrow> int \<Rightarrow> string \<Rightarrow> time \<Rightarrow> string \<Rightarrow> (error + nat) \<times> DB" where
  "exec_update db i p proto now d =
     (case next_fault db of
        (Some m, db') \<Rightarrow> (Inl (ErrStorage m), db')
      | (None, db') \<Rightarrow>
          (case domains_tbl db' d of
             None \<Rightarrow> (Inr 0, db')
           | Some r \<Rightarrow>
               (Inr 1, db'\<lparr>domains_tbl := (domains_tbl db')(d \<mapsto>
                  r\<lparr>col_ip := i, col_port := p, col_protocol := proto, col_updated_at := now\<rparr>)\<rparr>)))"

text \<open>\<open>DELETE FROM domains WHERE domain = ?\<close>, with the number of rows affected.\<close>

definition exec_delete :: "DB \<Rightarrow> string \<Rightarrow> (error + nat) \<times> DB" where
  "exec_delete db d =
     (case next_fault db of
        (Some m, db') \<Rightarrow> (Inl (ErrStorage m), db')
      | (None, db') \<Rightarrow>
          (case domains_tbl db' d of
             None \<Rightarrow> (Inr 0, db')
           | Some r \<Rightarrow> (Inr 1, db'\<lparr>domains_tbl := (domains_tbl db')(d := None)\<rparr>)))"

text \<open>
  \<open>GetDomain\<close>: \<open>nil, nil\<close> when there is no row (\<open>Inr None\<close>), the wrapped error when the
  query fails, the scanned record otherwise.
\<close>

definition GetDomain :: "DB \<Rightarrow> string \<Rightarrow> (error + Domain option) \<times> DB" where
  "GetDomain db domain =
     (case query_row db domain of
        (Inl err, db') \<Rightarrow> (Inl (Wrapf ''failed to get domain'' err), db')
      | (Inr None, db') \<Rightarrow> (Inr None, db')
      | (Inr (Some r), db') \<Rightarrow>
          (Inr (Some \<lparr>Domain = domain, IP = col_ip r, Port = col_port r,
                      Protocol = col_protocol r, CreatedAt = col_created_at r,
                      UpdatedAt = col_updated_at r\<rparr>), db'))"

definition CreateDomain :: "DB \<Rightarrow> CreateDomainRequest \<Rightarrow> time \<Rightarrow> (error + Domain option) \<times> DB" where
  "CreateDomain db req now =
     (let protocol = (if req_Protocol req = '''' then ''http'' else req_Protocol req) in
      case exec_insert db (req_Domain req) (req_IP req) (req_Port req) protocol now of
        (Some err, db') \<Rightarrow> (Inl (Wrapf ''failed to create domain'' err), db')
      | (None, db') \<Rightarrow> GetDomain db' (req_Domain req))"

text \<open>
  \<open>UpdateDomain\<close>: with an empty protocol the existing record is read first and its protocol
  kept. \<open>RowsAffected\<close> does not fail with this driver.
\<close>

definition do_update :: "DB \<Rightarrow> string \<Rightarrow> UpdateDomainRequest \<Rightarrow> string \<Rightarrow> time \<Rightarrow> (error + Domain option) \<times> DB" where
  "do_update db domain req protocol now =
     (case exec_update db (upd_IP req) (upd_Port req) protocol now domain of
        (Inl err, db') \<Rightarrow> (Inl (Wrapf ''failed to update domain'' err), db')
      | (Inr rowsAffected, db') \<Rightarrow>
          (if rowsAffected = 0 then (Inr None, db') else GetDomain db' domain))"

definition UpdateDomain :: "DB \<Rightarrow> string \<Rightarrow> UpdateDomainRequest \<Rightarrow> time \<Rightarrow> (error + Domain option) \<times> DB" where
  "UpdateDomain db domain req now =
     (if upd_Protocol req = '''' then
        (case GetDomain db domain of
           (Inl err, db') \<Rightarrow> (Inl (Wrapf ''failed to get existing domain'' err), db')
         | (Inr None, db') \<Rightarrow> (Inr None, db')
         | (Inr (Some existing), db') \<Rightarrow> do_update db' domain req (Protocol existing) now)
      else do_update db domain req (upd_Protocol req) now)"

definition DeleteDomain :: "DB \<Rightarrow> string \<Rightarrow> error option \<times> DB" where
  "DeleteDomain db domain =
     (case exec_delete db domain of
        (Inl err, db') \<Rightarrow> (Some (Wrapf ''failed to delete domain'' err), db')
      | (Inr rowsAffected, db') \<Rightarrow>
          (if rowsAffected = 0 then (Some (Errorf ''domain not found''), db') else (None, db')))"

text \<open>
  \<open>BulkCreateDomains\<close> runs in a transaction: \<open>Begin\<close>, \<open>Prepare\<close>, one \<open>Exec\<close> for each
  request, \<open>Commit\<close>, then one \<open>GetDomain\<close> for each inserted name. Every return before the
  commit has succeeded runs the deferred \<open>Rollback\<close>, which puts the table back to what it
  was at \<open>Begin\<close>.
\<close>

definition Rollback :: "DB \<Rightarrow> DB \<Rightarrow> DB" where
  "Rollback db tx = tx\<lparr>domains_tbl := domains_tbl db\<rparr>"

fun insert_all :: "DB \<Rightarrow> CreateDomainRequest list \<Rightarrow> time \<Rightarrow> string list \<Rightarrow> (error + string list) \<times> DB" where
  "insert_all tx [] now domainNames = (Inr domainNames, tx)"
| "insert_all tx (req # reqs) now domainNames =
     (let protocol = (if req_Protocol req = '''' then ''http'' else req_Protocol req) in
      case exec_insert tx (req_Domain req) (req_IP req) (req_Port req) protocol now of
        (Some err, tx') \<Rightarrow> (Inl (Wrapf (''failed to create domain '' @ req_Domain req) err), tx')
      | (None, tx') \<Rightarrow> insert_all tx' reqs now (domainNames @ [req_Domain req]))"

fun fetch_all :: "DB \<Rightarrow> string list \<Rightarrow> Domain list \<Rightarrow> (error + Domain list) \<times> DB" where
  "fetch_all db [] createdDomains = (Inr createdDomains, db)"
| "fetch_all db (domainName # names) createdDomains =
     (case GetDomain db domainName of
        (Inl err, db') \<Rightarrow> (Inl (Wrapf (''failed to fetch created domain '' @ domainName) err), db')
      | (Inr None, db') \<Rightarrow> fetch_all db' names createdDomains
      | (Inr (Some domain), db') \<Rightarrow> fetch_all db' names (createdDomains @ [domain]))"

definition BulkCreateDomains :: "DB \<Rightarrow> CreateDomainRequest list \<Rightarrow> time \<Rightarrow> (error + Domain list) \<times> DB" where
  "BulkCreateDomains db reqs now =
     (if length reqs = 0 then (Inr [], db)
      else
        case next_fault db of
          (Some m, db1) \<Rightarrow> (Inl (Wrapf ''failed to begin transaction'' (ErrStorage m)), db1)
        | (None, db1) \<Rightarrow>
            (case next_fault db1 of
               (Some m, tx) \<Rightarrow>
                 (Inl (Wrapf ''failed to prepare statement'' (ErrStorage m)), Rollback db tx)
             | (None, tx) \<Rightarrow>
                 (case insert_all tx reqs now [] of
                    (Inl err, tx') \<Rightarrow> (Inl err, Rollback db tx')
                  | (Inr domainNames, tx') \<Rightarrow>
                      (case next_fault tx' of
                         (Some m, tx'') \<Rightarrow>
                           (Inl (Wrapf ''failed to commit transaction'' (ErrStorage m)),
                            Rollback db tx'')
                       | (None, db2) \<Rightarrow> fetch_all db2 domainNames []))))"

section \<open>Library functions the program calls\<close>

text \<open>
  \<open>strings.LastIndex s substr\<close>: the index of the last instance of \<open>substr\<close> in \<open>s\<close>, or
  \<open>-1\<close>; the scan runs from the end of \<open>s\<close> down to index 0.
\<close>

fun last_index_from :: "string \<Rightarrow> string \<Rightarrow> nat \<Rightarrow> int" where
  "last_index_from s substr 0 = (if take (length substr) s = substr then 0 else -1)"
| "last_index_from s substr (Suc i) =
     (if take (length substr) (drop (Suc i) s) = substr then int (Suc i)
      else last_index_from s substr i)"

definition LastIndex :: "string \<Rightarrow> string \<Rightarrow> int" where
  "LastIndex s substr = last_index_from s substr (length s)"

text \<open>The verb \<open>%d\<close> of \<open>fmt.Sprintf\<close> on an integer: its decimal digits, after a minus sign
  when it is negative.\<close>

definition digit :: "nat \<Rightarrow> char" where
  "digit n = ''0123456789'' ! (n mod 10)"

fun nat_digits :: "nat \<Rightarrow> string" where
  "nat_digits n = (if n < 10 then [digit n] else nat_digits (n div 10) @ [digit (n mod 10)])"

definition itoa :: "int \<Rightarrow> string" where
  "itoa i = (if i < 0 then CHR ''-'' # nat_digits (nat (- i)) else nat_digits (nat i))"

section \<open>HTTP requests and responses (net/http, net/url)\<close>

text \<open>
  The fields of \<open>url.URL\<close> and of \<open>http.Request\<close> that the program reads or writes, and the
  others of the URL, so that what a rewrite leaves alone can be said. \<open>ReqHost\<close> is the field
  \<open>Host\<close> of the request and \<open>ReqBody\<close> the bytes of its body. A header maps a canonical key
  to its values.
\<close>

record URL =
  Scheme :: string
  Opaque :: string
  User :: "string option"
  Host :: string
  Path :: string
  RawPath :: string
  ForceQuery :: bool
  RawQuery :: string
  Fragment :: string
  RawFragment :: string

record Request =
  Method :: string
  URL :: URL
  Header :: "string \<rightharpoonup> string list"
  ReqBody :: string
  ReqHost :: string
  RemoteAddr :: string
  RequestURI :: string

datatype body =
    Text string
  | JSON_Domain "Domain option"
  | JSON_Domains "Domain list"
  | NoBody

record Response =
  StatusCode :: nat
  Body :: body

text \<open>\<open>http.Error(w, msg, code)\<close> writes the status and the message followed by a newline.\<close>

definition http_Error :: "string \<Rightarrow> nat \<Rightarrow> Response" where
  "http_Error msg code = \<lparr>StatusCode = code, Body = Text (msg @ [CHR 0x0A])\<rparr>"

text \<open>\<open>Header.Get\<close>: the first value of the key, or the empty string.\<close>

definition Header_Get :: "(string \<rightharpoonup> string list) \<Rightarrow> string \<Rightarrow> string" where
  "Header_Get h key = (case h key of Some (v # vs) \<Rightarrow> v | _ \<Rightarrow> '''')"

section \<open>The request line of a proxied request (net/url, net/http)\<close>

text \<open>
  What the library writes on the wire for the URL of an outbound request, and how the server
  fills the URL of an inbound one; all of it is the library's, in the mode of a path.
  \<open>shouldEscape\<close> says which bytes \<open>escape\<close> writes as a percent sign and two upper-case hex
  digits: all but letters, digits and the bytes \<open>-_.~$&+,/:;=@\<close>. \<open>unescape\<close> decodes the
  percent escapes and fails on a malformed one. \<open>validEncoded\<close> accepts a raw path whose bytes
  are the sub-delimiters, the brackets, the percent sign or bytes that need no escape.
  \<open>setPath\<close> is the path and the raw path the server stores for the path of a request
  target: the raw path is kept only when it differs from the escaped path. \<open>EscapedPath\<close> is
  the path written: the raw path when it is a valid encoding of the path, the escaped path
  otherwise. \<open>URL_RequestURI\<close> is the method \<open>RequestURI\<close> of a URL, the request target
  written in the request line; a fragment is never written.
\<close>

definition alnum :: "char \<Rightarrow> bool" where
  "alnum c = (let n = (of_char c :: nat) in
     (97 \<le> n \<and> n \<le> 122) \<or> (65 \<le> n \<and> n \<le> 90) \<or> (48 \<le> n \<and> n \<le> 57))"

definition shouldEscape :: "char \<Rightarrow> bool" where
  "shouldEscape c =
     (if alnum c then False
      else if c \<in> set ''-_.~'' then False
      else if c \<in> set ''$&+,/:;=?@'' then c = CHR ''?''
      else True)"

definition upperhex :: "nat \<Rightarrow> char" where
  "upperhex n = ''0123456789ABCDEF'' ! (n mod 16)"

definition escape :: "string \<Rightarrow> string" where
  "escape s = concat (map (\<lambda>c. if shouldEscape c
                                 then [CHR ''%'', upperhex (of_char c div 16), upperhex (of_char c mod 16)]
                                 else [c]) s)"

definition ishex :: "char \<Rightarrow> bool" where
  "ishex c = (let n = (of_char c :: nat) in
     (48 \<le> n \<and> n \<le> 57) \<or> (97 \<le> n \<and> n \<le> 102) \<or> (65 \<le> n \<and> n \<le> 70))"

definition unhex :: "char \<Rightarrow> nat" where
  "unhex c = (let n = (of_char c :: nat) in
     if 48 \<le> n \<and> n \<le> 57 then n - 48
     else if 97 \<le> n \<and> n \<le> 102 then n - 97 + 10
     else if 65 \<le> n \<and> n \<le> 70 then n - 65 + 10
     else 0)"

fun unescape :: "string \<Rightarrow> string option" where
  "unescape (c # a # b # s) =
     (if c = CHR ''%'' then
        (if ishex a \<and> ishex b then map_option ((#) (char_of (unhex a * 16 + unhex b))) (unescape s)
         else None)
      else map_option ((#) c) (unescape (a # b # s)))"
| "unescape (c # s) = (if c = CHR ''%'' then None else map_option ((#) c) (unescape s))"
| "unescape [] = Some []"

definition validEncoded :: "string \<Rightarrow> bool" where
  "validEncoded s =
     list_all (\<lambda>c. if c \<in> set ''!$&()*+,;=:@[]%'' \<or> c = CHR 0x27 then True
                    else \<not> shouldEscape c) s"

definition setPath :: "string \<Rightarrow> (string \<times> string) option" where
  "setPath p =
     (case unescape p of
        None \<Rightarrow> None
      | Some path \<Rightarrow> if p = escape path then Some (path, '''') else Some (path, p))"

definition EscapedPath :: "URL \<Rightarrow> string" where
  "EscapedPath u =
     (if RawPath u \<noteq> '''' \<and> validEncoded (RawPath u) \<and> unescape (RawPath u) = Some (Path u)
      then RawPath u
      else if Path u = ''*'' then ''*''
      else escape (Path u))"

definition URL_RequestURI :: "URL \<Rightarrow> string" where
  "URL_RequestURI u =
     (let result = Opaque u;
          result = (if result = '''' then
                      (let result = EscapedPath u in if result = '''' then ''/'' else result)
                    else if take 2 result = ''//'' then Scheme u @ '':'' @ result
                    else result)
      in if ForceQuery u \<or> RawQuery u \<noteq> '''' then result @ ''?'' @ RawQuery u else result)"

text \<open>
  The request the server hands to the handler for a GET whose target is the path \<open>p\<close>, a
  question mark and the query \<open>q\<close>: the server does not split a fragment off a request
  target.
\<close>

definition inbound :: "string \<Rightarrow> string \<Rightarrow> string \<Rightarrow> Request option" where
  "inbound host p q =
     (case setPath p of
        None \<Rightarrow> None
      | Some (path, raw) \<Rightarrow>
          Some \<lparr>Method = ''GET'',
                URL = \<lparr>Scheme = '''', Opaque = '''', User = None, Host = '''', Path = path,
                       RawPath = raw, ForceQuery = False, RawQuery = q, Fragment = '''',
                       RawFragment = ''''\<rparr>,
                Header = Map.empty, ReqBody = '''', ReqHost = host,
                RemoteAddr = ''192.0.2.7:5000'', RequestURI = p @ ''?'' @ q\<rparr>)"

section \<open>The dispatcher (internal/proxy)\<close>

text \<open>
  The lines of \<open>Proxy.ServeHTTP\<close> that strip the port from the host; \<open>DomainMiddleware\<close>
  has the same lines.
\<close>

definition domainName :: "string \<Rightarrow> string" where
  "domainName host =
     (let idx = LastIndex host '':'' in
      if idx \<noteq> - 1 then take (nat idx) host else host)"

text \<open>The default protocol of the record read, and the target
  \<open>fmt.Sprintf("%s://%s:%d", domain.Protocol, domain.IP, domain.Port)\<close>.\<close>

definition targetURL :: "Domain \<Rightarrow> string" where
  "targetURL domain =
     (let domain = (if Protocol domain = '''' then domain\<lparr>Protocol := ''http''\<rparr> else domain) in
      Protocol domain @ ''://'' @ IP domain @ '':'' @ itoa (Port domain))"

text \<open>
  The director of the reverse proxy. \<open>r\<close> is the inbound request that the closure holds and
  \<open>req\<close> the outbound request it is given to rewrite.
\<close>

definition Director :: "URL \<Rightarrow> Request \<Rightarrow> Request \<Rightarrow> Request" where
  "Director target r req =
     req\<lparr>URL := (URL req)\<lparr>Scheme := Scheme target, Host := Host target,
                            Path := Path (URL r), RawPath := RawPath (URL r),
                            RawQuery := RawQuery (URL r), Fragment := Fragment (URL r)\<rparr>,
         ReqHost := Host target,
         RequestURI := ''''\<rparr>"

definition ErrorHandler :: "error \<Rightarrow> Response" where
  "ErrorHandler err = http_Error (''Proxy error: '' @ Error err) 502"

text \<open>
  \<open>httputil.ReverseProxy.ServeHTTP\<close>: the library clones the inbound request, has the
  director rewrite the clone, sends it, and relays the backend's response or calls the error
  handler. \<open>RoundTrip\<close> is the transport: the backend's response or the error of contacting
  it. The result holds the response written and the outbound request as the director left
  it; what the library does to the headers of a hop afterwards is left out.
\<close>

definition ReverseProxy_ServeHTTP ::
  "(Request \<Rightarrow> Request) \<Rightarrow> (error \<Rightarrow> Response) \<Rightarrow> (Request \<Rightarrow> error + Response) \<Rightarrow> Request
     \<Rightarrow> Response \<times> Request" where
  "ReverseProxy_ServeHTTP director errorHandler RoundTrip r =
     (let outreq = director r in
      case RoundTrip outreq of
        Inl err \<Rightarrow> (errorHandler err, outreq)
      | Inr res \<Rightarrow> (res, outreq))"

text \<open>
  \<open>Proxy.ServeHTTP\<close>. \<open>url_Parse\<close> is \<open>url.Parse\<close> of the library. The result is the response
  written to the caller, the outbound request when one was sent, and the registry.
\<close>

definition ServeHTTP ::
  "(string \<Rightarrow> error + URL) \<Rightarrow> (Request \<Rightarrow> error + Response) \<Rightarrow> DB \<Rightarrow> Request
     \<Rightarrow> (Response \<times> Request option) \<times> DB" where
  "ServeHTTP url_Parse RoundTrip db r =
     (let host = ReqHost r in
      if host = '''' then ((http_Error ''Missing Host header'' 400, None), db)
      else
        case GetDomain db (domainName host) of
          (Inl err, db') \<Rightarrow> ((http_Error ''Internal server error'' 500, None), db')
        | (Inr None, db') \<Rightarrow> ((http_Error ''Domain not found'' 404, None), db')
        | (Inr (Some domain), db') \<Rightarrow>
            (case url_Parse (targetURL domain) of
               Inl err \<Rightarrow> ((http_Error ''Invalid target configuration'' 500, None), db')
             | Inr target \<Rightarrow>
                 (case ReverseProxy_ServeHTTP (Director target r) ErrorHandler RoundTrip r of
                    (res, outreq) \<Rightarrow> ((res, Some outreq), db'))))"

section \<open>The management API (internal/api/handlers.go, cmd/proxy/main.go)\<close>

record Handlers =
  apiKey :: string
  authToken :: string

definition NewHandlers :: "string \<Rightarrow> Handlers" where
  "NewHandlers key = \<lparr>apiKey = key, authToken = ''Bearer '' @ key\<rparr>"

type_synonym Handler = "Request \<Rightarrow> DB \<Rightarrow> Response \<times> DB"

definition DomainMiddleware :: "string \<Rightarrow> Handler \<Rightarrow> Handler" where
  "DomainMiddleware allowedDomain next r db =
     (let host = ReqHost r in
      if domainName host \<noteq> allowedDomain then
        (http_Error ''Forbidden: API access restricted to specific domain'' 403, db)
      else next r db)"

definition AuthMiddleware :: "Handlers \<Rightarrow> Handler \<Rightarrow> Handler" where
  "AuthMiddleware h next r db =
     (let authHeader = Header_Get (Header r) ''Authorization'' in
      if authHeader \<noteq> authToken h then (http_Error ''Unauthorized'' 401, db)
      else next r db)"

text \<open>
  \<open>main\<close> puts both middlewares on the router of \<open>/api\<close>, the domain restriction first:
  the handler of a matched route runs inside both.
\<close>

definition apiRouter :: "string \<Rightarrow> Handlers \<Rightarrow> Handler \<Rightarrow> Handler" where
  "apiRouter APIDomain h handler = DomainMiddleware APIDomain (AuthMiddleware h handler)"

text \<open>
  The handlers. \<open>decode\<close> is the JSON decoder of the library on the bytes of the body,
  \<open>PathUnescape\<close> is \<open>url.PathUnescape\<close>, \<open>var\<close> the route variable \<open>domain\<close> of the router,
  \<open>ReadAll\<close> is \<open>io.ReadAll\<close> and \<open>now\<close> the time of the storage's clock.
\<close>

definition Handlers_CreateDomain ::
  "(string \<Rightarrow> error + CreateDomainRequest) \<Rightarrow> time \<Rightarrow> Handler" where
  "Handlers_CreateDomain decode now r db =
     (case decode (ReqBody r) of
        Inl err \<Rightarrow> (http_Error (''Invalid request body: '' @ Error err) 400, db)
      | Inr req \<Rightarrow>
          if req_Domain req = '''' \<or> req_IP req = '''' \<or> req_Port req = 0 then
            (http_Error ''Missing required fields: domain, ip, port'' 400, db)
          else
            let req = (if req_Protocol req = '''' then req\<lparr>req_Protocol := ''http''\<rparr> else req) in
            case CreateDomain db req now of
              (Inl err, db') \<Rightarrow> (http_Error (''Failed to create domain: '' @ Error err) 500, db')
            | (Inr domain, db') \<Rightarrow> (\<lparr>StatusCode = 201, Body = JSON_Domain domain\<rparr>, db'))"

definition Handlers_UpdateDomain ::
  "(string \<Rightarrow> error + string) \<Rightarrow> string \<Rightarrow> (string \<Rightarrow> error + UpdateDomainRequest) \<Rightarrow> time
     \<Rightarrow> Handler" where
  "Handlers_UpdateDomain PathUnescape var decode now r db =
     (case PathUnescape var of
        Inl err \<Rightarrow> (http_Error ''Invalid domain parameter'' 400, db)
      | Inr domain \<Rightarrow>
          (case decode (ReqBody r) of
             Inl err \<Rightarrow> (http_Error (''Invalid request body: '' @ Error err) 400, db)
           | Inr req \<Rightarrow>
               if upd_IP req = '''' \<or> upd_Port req = 0 then
                 (http_Error ''Missing required fields: ip, port'' 400, db)
               else
                 let req = (if upd_Protocol req = '''' then req\<lparr>upd_Protocol := ''http''\<rparr>
                            else req) in
                 case UpdateDomain db domain req now of
                   (Inl err, db') \<Rightarrow>
                     (http_Error (''Failed to update domain: '' @ Error err) 500, db')
                 | (Inr None, db') \<Rightarrow> (http_Error ''Domain not found'' 404, db')
                 | (Inr (Some domainModel), db') \<Rightarrow>
                     (\<lparr>StatusCode = 200, Body = JSON_Domain (Some domainModel)\<rparr>, db')))"

text \<open>The loop of \<open>BulkCreateDomains\<close> over the decoded requests: the index of the first
  request with a missing field, or the requests with the default protocol filled in.\<close>

fun validate_all :: "CreateDomainRequest list \<Rightarrow> nat \<Rightarrow> nat + CreateDomainRequest list" where
  "validate_all [] i = Inr []"
| "validate_all (domain # rest) i =
     (if req_Domain domain = '''' \<or> req_IP domain = '''' \<or> req_Port domain = 0 then Inl i
      else
        case validate_all rest (Suc i) of
          Inl j \<Rightarrow> Inl j
        | Inr rest' \<Rightarrow>
            Inr ((if req_Protocol domain = '''' then domain\<lparr>req_Protocol := ''http''\<rparr>
                  else domain) # rest'))"

definition Handlers_BulkCreateDomains ::
  "(string \<Rightarrow> error + string) \<Rightarrow> (string \<Rightarrow> error + CreateDomainRequest list)
     \<Rightarrow> (string \<Rightarrow> error + CreateDomainRequest list) \<Rightarrow> time \<Rightarrow> Handler" where
  "Handlers_BulkCreateDomains ReadAll decode_array decode_object now r db =
     (case ReadAll (ReqBody r) of
        Inl err \<Rightarrow> (http_Error (''Failed to read request body: '' @ Error err) 400, db)
      | Inr bodyBytes \<Rightarrow>
          (case (case decode_array bodyBytes of
                   Inr domains \<Rightarrow> Inr domains
                 | Inl err \<Rightarrow> decode_object bodyBytes) of
             Inl err2 \<Rightarrow>
               (http_Error
                  ''Invalid request body: expected array of domains or object with 'domains' field''
                  400, db)
           | Inr domains \<Rightarrow>
               if length domains = 0 then (http_Error ''No domains provided'' 400, db)
               else
                 (case validate_all domains 0 of
                    Inl i \<Rightarrow>
                      (http_Error (''Missing required fields in domain at index '' @ itoa (int i)
                                   @ '': domain, ip, port'') 400, db)
                  | Inr domains' \<Rightarrow>
                      (case BulkCreateDomains db domains' now of
                         (Inl err, db') \<Rightarrow>
                           (http_Error (''Failed to create domains: '' @ Error err) 500, db')
                       | (Inr createdDomains, db') \<Rightarrow>
                           (\<lparr>StatusCode = 201, Body = JSON_Domains createdDomains\<rparr>, db')))))"

section \<open>Predicates of the statements\<close>

text \<open>The row that the insert statement stores for a request.\<close>

definition stored_row :: "CreateDomainRequest \<Rightarrow> time \<Rightarrow> row" where
  "stored_row req now =
     \<lparr>col_ip = req_IP req, col_port = req_Port req,
      col_protocol = (if req_Protocol req = '''' then ''http'' else req_Protocol req),
      col_created_at = now, col_updated_at = now\<rparr>"

text \<open>
  A batch has a duplicate when one of its domains is in the table already or occurs twice in
  the batch. A batch is persisted in \<open>db'\<close> when every request of it has its row there and
  every other key is as it was in \<open>db\<close>.
\<close>

definition batch_duplicate :: "DB \<Rightarrow> CreateDomainRequest list \<Rightarrow> bool" where
  "batch_duplicate db reqs \<longleftrightarrow>
     (\<exists>req\<in>set reqs. domains_tbl db (req_Domain req) \<noteq> None) \<or> \<not> distinct (map req_Domain reqs)"

definition batch_persisted :: "DB \<Rightarrow> CreateDomainRequest list \<Rightarrow> time \<Rightarrow> DB \<Rightarrow> bool" where
  "batch_persisted db reqs now db' \<longleftrightarrow>
     (\<forall>req\<in>set reqs. domains_tbl db' (req_Domain req) = Some (stored_row req now)) \<and>
     (\<forall>d. d \<notin> req_Domain ` set reqs \<longrightarrow> domains_tbl db' d = domains_tbl db d)"

text \<open>
  The operations that change the registry, the schemes a request of each carries, and a run
  of operations, each at its time. A scheme is recognized when it is \<open>http\<close> or \<open>https\<close>.
\<close>

datatype op =
    Insert CreateDomainRequest
  | Update string UpdateDomainRequest
  | Delete string
  | BulkInsert "CreateDomainRequest list"

fun apply_op :: "DB \<Rightarrow> op \<Rightarrow> time \<Rightarrow> DB" where
  "apply_op db (Insert req) now = snd (CreateDomain db req now)"
| "apply_op db (Update domain req) now = snd (UpdateDomain db domain req now)"
| "apply_op db (Delete domain) now = snd (DeleteDomain db domain)"
| "apply_op db (BulkInsert reqs) now = snd (BulkCreateDomains db reqs now)"

fun op_schemes :: "op \<Rightarrow> string list" where
  "op_schemes (Insert req) = [req_Protocol req]"
| "op_schemes (Update domain req) = [upd_Protocol req]"
| "op_schemes (Delete domain) = []"
| "op_schemes (BulkInsert reqs) = map req_Protocol reqs"

fun run :: "DB \<Rightarrow> (op \<times> time) list \<Rightarrow> DB" where
  "run db [] = db"
| "run db ((op, now) # ops) = run (apply_op db op now) ops"

definition recognized :: "string \<Rightarrow> bool" where
  "recognized s \<longleftrightarrow> s = ''http'' \<or> s = ''https''"

definition schemes_recognized :: "DB \<Rightarrow> bool" where
  "schemes_recognized db \<longleftrightarrow>
     (\<forall>d row. domains_tbl db d = Some row \<longrightarrow> recognized (col_protocol row))"

text \<open>The scheme stored for the scheme of a creation request.\<close>

definition default_or_given :: "string \<Rightarrow> string" where
  "default_or_given s = (if s = '''' then ''http'' else s)"

definition schemes_given :: "op \<Rightarrow> bool" where
  "schemes_given op \<longleftrightarrow> (\<forall>s\<in>set (op_schemes op). s = '''' \<or> recognized s)"

text \<open>
  A creation request misses a field when its domain or its address is empty or its port is
  zero. \<open>with_default\<close> is the request with the default protocol filled in,
  \<open>new_rows_filled db db'\<close> says that every row of \<open>db'\<close> that \<open>db\<close> does not hold has a
  port other than zero, an address and a key, and \<open>bulk_decode\<close> gives the requests that the
  bulk handler decodes from the body, as an array first and as an object otherwise.
\<close>

definition missing_field :: "CreateDomainRequest \<Rightarrow> bool" where
  "missing_field req \<longleftrightarrow> req_Domain req = '''' \<or> req_IP req = '''' \<or> req_Port req = 0"

definition with_default :: "CreateDomainRequest \<Rightarrow> CreateDomainRequest" where
  "with_default req = (if req_Protocol req = '''' then req\<lparr>req_Protocol := ''http''\<rparr> else req)"

definition new_rows_filled :: "DB \<Rightarrow> DB \<Rightarrow> bool" where
  "new_rows_filled db db' \<longleftrightarrow>
     (\<forall>d row. domains_tbl db' d = Some row \<and> domains_tbl db d \<noteq> Some row
        \<longrightarrow> col_port row \<noteq> 0 \<and> col_ip row \<noteq> '''' \<and> d \<noteq> '''')"

definition bulk_decode ::
  "(string \<Rightarrow> error + string) \<Rightarrow> (string \<Rightarrow> error + CreateDomainRequest list)
     \<Rightarrow> (string \<Rightarrow> error + CreateDomainRequest list) \<Rightarrow> Request \<Rightarrow> CreateDomainRequest list option" where
  "bulk_decode ReadAll decode_array decode_object r =
     (case ReadAll (ReqBody r) of
        Inl err \<Rightarrow> None
      | Inr bodyBytes \<Rightarrow>
          (case decode_array bodyBytes of
             Inr reqs \<Rightarrow> Some reqs
           | Inl err \<Rightarrow> (case decode_object bodyBytes of Inr reqs \<Rightarrow> Some reqs | Inl err2 \<Rightarrow> None)))"

section \<open>Sample data\<close>

text \<open>A registry that holds \<open>a.com\<close> with an https backend, and requests on it.\<close>

definition row_a :: row where
  "row_a = \<lparr>col_ip = ''10.0.0.1'', col_port = 8080, col_protocol = ''https'',
            col_created_at = 1, col_updated_at = 1\<rparr>"

definition db_a :: DB where
  "db_a = \<lparr>domains_tbl = [''a.com'' \<mapsto> row_a], faults = []\<rparr>"

definition req_a :: CreateDomainRequest where
  "req_a = \<lparr>req_Domain = ''a.com'', req_IP = ''10.9.9.9'', req_Port = 81,
            req_Protocol = ''http''\<rparr>"

definition batch_dup :: "CreateDomainRequest list" where
  "batch_dup =
     [\<lparr>req_Domain = ''b.com'', req_IP = ''10.0.0.2'', req_Port = 80, req_Protocol = ''''\<rparr>,
      \<lparr>req_Domain = ''a.com'', req_IP = ''10.0.0.3'', req_Port = 80, req_Protocol = ''http''\<rparr>,
      \<lparr>req_Domain = ''c.com'', req_IP = ''10.0.0.4'', req_Port = 443, req_Protocol = ''https''\<rparr>]"

definition batch_ok :: "CreateDomainRequest list" where
  "batch_ok =
     [\<lparr>req_Domain = ''b.com'', req_IP = ''10.0.0.2'', req_Port = 80, req_Protocol = ''''\<rparr>,
      \<lparr>req_Domain = ''c.com'', req_IP = ''10.0.0.4'', req_Port = 443, req_Protocol = ''https''\<rparr>]"

text \<open>A registry with an http backend and a record stored with an empty protocol, an
  inbound request, a parser that knows the target of the backend, and two transports.\<close>

definition row_e :: row where
  "row_e = \<lparr>col_ip = ''10.1.1.1'', col_port = 80, col_protocol = ''http'',
            col_created_at = 1, col_updated_at = 1\<rparr>"

definition row_old :: row where
  "row_old = \<lparr>col_ip = ''10.1.1.1'', col_port = 80, col_protocol = '''',
            col_created_at = 0, col_updated_at = 0\<rparr>"

definition db_e :: DB where
  "db_e = \<lparr>domains_tbl = [''example.com'' \<mapsto> row_e, ''old.com'' \<mapsto> row_old], faults = []\<rparr>"

definition url_in :: URL where
  "url_in = \<lparr>Scheme = '''', Opaque = '''', User = None, Host = '''', Path = ''/a/b'',
             RawPath = ''/a%2Fb'', ForceQuery = False, RawQuery = ''x=1'', Fragment = ''frag'',
             RawFragment = ''''\<rparr>"

definition req_in :: "string \<Rightarrow> Request" where
  "req_in host = \<lparr>Method = ''GET'', URL = url_in, Header = Map.empty, ReqBody = '''',
             ReqHost = host, RemoteAddr = ''192.0.2.7:5000'',
             RequestURI = ''/a%2Fb?x=1#frag''\<rparr>"

definition url_backend :: URL where
  "url_backend = \<lparr>Scheme = ''http'', Opaque = '''', User = None, Host = ''10.1.1.1:80'',
             Path = '''', RawPath = '''', ForceQuery = False, RawQuery = '''', Fragment = '''',
             RawFragment = ''''\<rparr>"

definition url_Parse_sample :: "string \<Rightarrow> error + URL" where
  "url_Parse_sample s =
     (if s = ''http://10.1.1.1:80'' then Inr url_backend else Inl (Errorf ''parse error''))"

definition backend_ok :: "Request \<Rightarrow> error + Response" where
  "backend_ok req = Inr \<lparr>StatusCode = 200, Body = Text ''hello''\<rparr>"

definition backend_down :: "Request \<Rightarrow> error + Response" where
  "backend_down req = Inl (Errorf ''dial tcp 10.1.1.1:80: connect: connection refused'')"

text \<open>The same registry on a storage whose next statement fails.\<close>

definition db_fault :: DB where
  "db_fault = db_e\<lparr>faults := [Some ''disk I/O error'']\<rparr>"

text \<open>
  The requests for the targets \<open>/a%2Fb{x}?x=1\<close> and \<open>/a%2Fb?x=1#frag\<close>, and a backend that
  answers with the request target it is sent.
\<close>

definition req_brace :: Request where
  "req_brace =
     \<lparr>Method = ''GET'',
      URL = \<lparr>Scheme = '''', Opaque = '''', User = None, Host = '''', Path = ''/a/b{x}'',
             RawPath = ''/a%2Fb{x}'', ForceQuery = False, RawQuery = ''x=1'', Fragment = '''',
             RawFragment = ''''\<rparr>,
      Header = Map.empty, ReqBody = '''', ReqHost = ''example.com:8443'',
      RemoteAddr = ''192.0.2.7:5000'', RequestURI = ''/a%2Fb{x}?x=1''\<rparr>"

definition req_encoded :: Request where
  "req_encoded =
     \<lparr>Method = ''GET'',
      URL = \<lparr>Scheme = '''', Opaque = '''', User = None, Host = '''', Path = ''/a/b'',
             RawPath = ''/a%2Fb'', ForceQuery = False, RawQuery = ''x=1#frag'', Fragment = '''',
             RawFragment = ''''\<rparr>,
      Header = Map.empty, ReqBody = '''', ReqHost = ''example.com:8443'',
      RemoteAddr = ''192.0.2.7:5000'', RequestURI = ''/a%2Fb?x=1#frag''\<rparr>"

definition backend_echo :: "Request \<Rightarrow> error + Response" where
  "backend_echo req = Inr \<lparr>StatusCode = 200, Body = Text (URL_RequestURI (URL req))\<rparr>"

text \<open>The handlers of an API key, and a handler that empties the table.\<close>

definition admin_handlers :: Handlers where
  "admin_handlers = NewHandlers ''secret''"

definition handler_sample :: Handler where
  "handler_sample r db = (\<lparr>StatusCode = 204, Body = NoBody\<rparr>, db\<lparr>domains_tbl := Map.empty\<rparr>)"

text \<open>The empty registry, the requests of an insert with https and of an update without a
  protocol, and decoders that deliver them.\<close>

definition db_empty :: DB where
  "db_empty = \<lparr>domains_tbl = Map.empty, faults = []\<rparr>"

definition req_https :: CreateDomainRequest where
  "req_https = \<lparr>req_Domain = ''a.com'', req_IP = ''10.0.0.1'', req_Port = 8080,
            req_Protocol = ''https''\<rparr>"

definition upd_no_scheme :: UpdateDomainRequest where
  "upd_no_scheme = \<lparr>upd_IP = ''10.0.0.2'', upd_Port = 9090, upd_Protocol = ''''\<rparr>"

definition decode_create_sample :: "CreateDomainRequest \<Rightarrow> string \<Rightarrow> error + CreateDomainRequest" where
  "decode_create_sample req bytes = Inr req"

definition decode_update_sample :: "string \<Rightarrow> error + UpdateDomainRequest" where
  "decode_update_sample bytes = Inr upd_no_scheme"

definition PathUnescape_sample :: "string \<Rightarrow> error + string" where
  "PathUnescape_sample s = Inr s"

definition upd_http :: UpdateDomainRequest where
  "upd_http = \<lparr>upd_IP = ''10.0.0.2'', upd_Port = 9090, upd_Protocol = ''http''\<rparr>"

definition req_b :: CreateDomainRequest where
  "req_b = \<lparr>req_Domain = ''b.com'', req_IP = ''10.0.0.2'', req_Port = 80, req_Protocol = ''''\<rparr>"

definition req_ftp :: CreateDomainRequest where
  "req_ftp = \<lparr>req_Domain = ''f.com'', req_IP = ''10.0.0.5'', req_Port = 21,
              req_Protocol = ''ftp''\<rparr>"

definition ops_sample :: "(op \<times> time) list" where
  "ops_sample = [(Insert req_https, 1), (Update ''a.com'' upd_no_scheme, 2),
                 (BulkInsert batch_ok, 3), (Delete ''c.com'', 4)]"

text \<open>Requests with the port zero and with a port above 65535, a batch whose second request
  has no address, and the readers and decoders that deliver them.\<close>

definition req_zero :: CreateDomainRequest where
  "req_zero = \<lparr>req_Domain = ''z.com'', req_IP = ''10.0.0.6'', req_Port = 0,
               req_Protocol = ''http''\<rparr>"

definition req_big :: CreateDomainRequest where
  "req_big = \<lparr>req_Domain = ''p.com'', req_IP = ''10.0.0.7'', req_Port = 70000,
              req_Protocol = ''http''\<rparr>"

definition batch_bad :: "CreateDomainRequest list" where
  "batch_bad =
     [\<lparr>req_Domain = ''b.com'', req_IP = ''10.0.0.2'', req_Port = 80, req_Protocol = ''''\<rparr>,
      \<lparr>req_Domain = ''c.com'', req_IP = '''', req_Port = 443, req_Protocol = ''https''\<rparr>]"

definition ReadAll_sample :: "string \<Rightarrow> error + string" where
  "ReadAll_sample bytes = Inr bytes"

definition decode_array_sample :: "CreateDomainRequest list \<Rightarrow> string \<Rightarrow> error + CreateDomainRequest list" where
  "decode_array_sample reqs bytes = Inr reqs"

definition decode_object_sample :: "string \<Rightarrow> error + CreateDomainRequest list" where
  "decode_object_sample bytes =
     Inl (Errorf ''json: cannot unmarshal array into Go value of type models.BulkCreateDomainsRequest'')"

section \<open>Properties of the registry\<close>

lemma next_fault_domains: "next_fault db = (f, db') \<Longrightarrow> domains_tbl db' = domains_tbl db"
  by (auto simp: next_fault_def split: list.splits)

lemma next_fault_healthy: "faults db = [] \<Longrightarrow> next_fault db = (None, db)"
  by (simp add: next_fault_def)

lemma exec_insert_existing:
  assumes "domains_tbl db d = Some r" and "exec_insert db d i p proto now = (res, db')"
  shows "res \<noteq> None \<and> domains_tbl db' = domains_tbl db"
proof (cases "next_fault db")
  case (Pair f db1)
  then have "domains_tbl db1 = domains_tbl db" by (rule next_fault_domains)
  with assms Pair show ?thesis
    by (cases f) (auto simp: exec_insert_def)
qed

text \<open>
  C5. Inserting a domain that the registry already holds fails and leaves the table, and so
  every field of the stored record, as it was: the result is an error, never an overwrite.
  The error is the wrapped primary-key violation of the driver whenever the storage carries
  the statement out.
\<close>

theorem CreateDomain_duplicate:
  assumes "domains_tbl db (req_Domain req) = Some r"
  shows "\<exists>e. fst (CreateDomain db req now) = Inl e
           \<and> (faults db = [] \<longrightarrow> e = Wrapf ''failed to create domain'' ErrConstraintUnique)
           \<and> domains_tbl (snd (CreateDomain db req now)) = domains_tbl db
           \<and> domains_tbl (snd (CreateDomain db req now)) (req_Domain req) = Some r"
proof -
  define proto where "proto = (if req_Protocol req = '''' then ''http'' else req_Protocol req)"
  obtain res db' where ex:
    "exec_insert db (req_Domain req) (req_IP req) (req_Port req) proto now = (res, db')"
    by (cases "exec_insert db (req_Domain req) (req_IP req) (req_Port req) proto now")
  from exec_insert_existing [OF assms ex] obtain err where
    res: "res = Some err" and same: "domains_tbl db' = domains_tbl db" by auto
  have cd: "CreateDomain db req now = (Inl (Wrapf ''failed to create domain'' err), db')"
    using ex res by (simp add: CreateDomain_def proto_def Let_def)
  have "faults db = [] \<longrightarrow> err = ErrConstraintUnique"
    using ex res assms by (auto simp: exec_insert_def next_fault_healthy)
  with cd same assms show ?thesis by simp
qed

theorem CreateDomain_duplicate_witness:
  "fst (CreateDomain db_a req_a 7) = Inl (Wrapf ''failed to create domain'' ErrConstraintUnique)
   \<and> domains_tbl (snd (CreateDomain db_a req_a 7)) ''a.com'' = Some row_a"
  using CreateDomain_duplicate [of db_a req_a row_a 7]
  by (auto simp: db_a_def req_a_def)

lemma next_fault_cases:
  obtains (fail) m db' where "next_fault db = (Some m, db')" "domains_tbl db' = domains_tbl db"
  | (ok) db' where "next_fault db = (None, db')" "domains_tbl db' = domains_tbl db"
proof (cases "next_fault db")
  case (Pair f db')
  then have "domains_tbl db' = domains_tbl db" by (rule next_fault_domains)
  with Pair show ?thesis by (cases f) (auto intro: fail ok)
qed

lemma exec_insert_None:
  assumes "exec_insert db d i p proto now = (None, db')"
  shows "domains_tbl db d = None"
    and "domains_tbl db' = (domains_tbl db)(d \<mapsto>
           \<lparr>col_ip = i, col_port = p, col_protocol = proto, col_created_at = now,
             col_updated_at = now\<rparr>)"
  using assms
  by (cases db rule: next_fault_cases; auto simp: exec_insert_def split: option.splits)+

lemma exec_insert_Some:
  assumes "exec_insert db d i p proto now = (Some e, db')"
  shows "domains_tbl db' = domains_tbl db"
  using assms
  by (cases db rule: next_fault_cases) (auto simp: exec_insert_def split: option.splits)

lemma insert_all_Inr:
  "insert_all tx reqs now names = (Inr names', tx') \<Longrightarrow>
     names' = names @ map req_Domain reqs \<and>
     distinct (map req_Domain reqs) \<and>
     (\<forall>req\<in>set reqs. domains_tbl tx (req_Domain req) = None) \<and>
     (\<forall>req\<in>set reqs. domains_tbl tx' (req_Domain req) = Some (stored_row req now)) \<and>
     (\<forall>d. d \<notin> req_Domain ` set reqs \<longrightarrow> domains_tbl tx' d = domains_tbl tx d)"
proof (induction reqs arbitrary: tx names)
  case Nil
  then show ?case by simp
next
  case (Cons req reqs)
  let ?proto = "if req_Protocol req = '''' then ''http'' else req_Protocol req"
  obtain res tx1 where ex:
    "exec_insert tx (req_Domain req) (req_IP req) (req_Port req) ?proto now = (res, tx1)"
    by (cases "exec_insert tx (req_Domain req) (req_IP req) (req_Port req) ?proto now")
  with Cons.prems have res: "res = None"
    and rest: "insert_all tx1 reqs now (names @ [req_Domain req]) = (Inr names', tx')"
    by (auto simp: Let_def split: option.splits)
  from exec_insert_None [OF ex [unfolded res]]
  have fresh: "domains_tbl tx (req_Domain req) = None"
    and tx1: "domains_tbl tx1 = (domains_tbl tx)(req_Domain req \<mapsto> stored_row req now)"
    by (simp_all add: stored_row_def)
  from Cons.IH [OF rest] have
    n: "names' = (names @ [req_Domain req]) @ map req_Domain reqs" and
    d: "distinct (map req_Domain reqs)" and
    f: "\<forall>r\<in>set reqs. domains_tbl tx1 (req_Domain r) = None" and
    p: "\<forall>r\<in>set reqs. domains_tbl tx' (req_Domain r) = Some (stored_row r now)" and
    o: "\<forall>d. d \<notin> req_Domain ` set reqs \<longrightarrow> domains_tbl tx' d = domains_tbl tx1 d"
    by blast+
  have notin: "req_Domain req \<notin> req_Domain ` set reqs"
    using f tx1 by auto
  have f': "\<forall>r\<in>set reqs. domains_tbl tx (req_Domain r) = None"
    using f tx1 by (auto split: if_splits)
  have here: "domains_tbl tx' (req_Domain req) = Some (stored_row req now)"
    using o notin tx1 by simp
  have o': "\<forall>d. d \<notin> req_Domain ` set (req # reqs) \<longrightarrow> domains_tbl tx' d = domains_tbl tx d"
    using o tx1 by auto
  from n d notin fresh f' here p o' show ?case by simp
qed


lemma GetDomain_domains: "GetDomain db d = (res, db') \<Longrightarrow> domains_tbl db' = domains_tbl db"
  by (cases db rule: next_fault_cases)
     (auto simp: GetDomain_def query_row_def split: option.splits)

lemma fetch_all_domains:
  "fetch_all db names acc = (res, db') \<Longrightarrow> domains_tbl db' = domains_tbl db"
proof (induction names arbitrary: db acc)
  case Nil
  then show ?case by simp
next
  case (Cons n names)
  obtain g db1 where g: "GetDomain db n = (g, db1)" by (cases "GetDomain db n")
  then have "domains_tbl db1 = domains_tbl db" by (rule GetDomain_domains)
  with Cons g show ?case
    by (auto split: sum.splits option.splits)
qed

lemma GetDomain_healthy:
  "faults db = [] \<Longrightarrow>
     GetDomain db d =
       (Inr (map_option (\<lambda>r. \<lparr>Domain = d, IP = col_ip r, Port = col_port r,
                                Protocol = col_protocol r, CreatedAt = col_created_at r,
                                UpdatedAt = col_updated_at r\<rparr>) (domains_tbl db d)), db)"
  by (simp add: GetDomain_def query_row_def next_fault_healthy split: option.splits)

lemma fetch_all_healthy:
  "faults db = [] \<Longrightarrow> \<exists>created. fetch_all db names acc = (Inr created, db)"
proof (induction names arbitrary: acc)
  case Nil
  then show ?case by simp
next
  case (Cons n names)
  then show ?case
    by (cases "domains_tbl db n") (simp_all add: GetDomain_healthy)
qed

lemma exec_insert_healthy:
  "faults db = [] \<Longrightarrow> domains_tbl db d = None \<Longrightarrow>
     \<exists>db'. exec_insert db d i p proto now = (None, db') \<and> faults db' = []"
  by (simp add: exec_insert_def next_fault_healthy)

lemma insert_all_healthy:
  "faults tx = [] \<Longrightarrow> distinct (map req_Domain reqs) \<Longrightarrow>
   \<forall>req\<in>set reqs. domains_tbl tx (req_Domain req) = None \<Longrightarrow>
     \<exists>names' tx'. insert_all tx reqs now names = (Inr names', tx') \<and> faults tx' = []"
proof (induction reqs arbitrary: tx names)
  case Nil
  then show ?case by simp
next
  case (Cons req reqs)
  let ?proto = "if req_Protocol req = '''' then ''http'' else req_Protocol req"
  from Cons.prems have "faults tx = []" "domains_tbl tx (req_Domain req) = None" by simp_all
  from exec_insert_healthy [OF this, of "req_IP req" "req_Port req" ?proto now]
  obtain tx1 where
    ex: "exec_insert tx (req_Domain req) (req_IP req) (req_Port req) ?proto now = (None, tx1)"
    and h: "faults tx1 = []"
    by blast
  from exec_insert_None(2) [OF ex] Cons.prems
  have "\<forall>r\<in>set reqs. domains_tbl tx1 (req_Domain r) = None"
    by (auto simp: image_iff)
  with Cons.IH [OF h, of "names @ [req_Domain req]"] Cons.prems
  obtain names' tx' where
    "insert_all tx1 reqs now (names @ [req_Domain req]) = (Inr names', tx')" "faults tx' = []"
    by auto
  with ex show ?case by (simp add: Let_def)
qed

lemma fetch_all_present:
  "faults db = [] \<Longrightarrow> \<forall>n\<in>set names. domains_tbl db n \<noteq> None \<Longrightarrow>
     \<exists>created. fetch_all db names acc = (Inr created, db) \<and>
               map Domain created = map Domain acc @ names"
proof (induction names arbitrary: acc)
  case Nil
  then show ?case by simp
next
  case (Cons n names)
  then obtain r where r: "domains_tbl db n = Some r" by auto
  let ?d = "\<lparr>Domain = n, IP = col_ip r, Port = col_port r, Protocol = col_protocol r,
             CreatedAt = col_created_at r, UpdatedAt = col_updated_at r\<rparr>"
  from Cons.IH [of "acc @ [?d]"] Cons.prems obtain created where
    "fetch_all db names (acc @ [?d]) = (Inr created, db)"
    "map Domain created = map Domain (acc @ [?d]) @ names"
    by auto
  with r Cons.prems(1) show ?case
    by (simp add: GetDomain_healthy)
qed

lemma BulkCreateDomains_cases:
  fixes db reqs now
  defines "res \<equiv> BulkCreateDomains db reqs now"
  shows "(domains_tbl (snd res) = domains_tbl db \<and> (\<exists>e. fst res = Inl e))
       \<or> (reqs = [] \<and> res = (Inr [], db))
       \<or> (\<exists>tx names tx'. domains_tbl tx = domains_tbl db
             \<and> insert_all tx reqs now [] = (Inr names, tx')
             \<and> domains_tbl (snd res) = domains_tbl tx')"
proof (cases "reqs = []")
  case True
  then show ?thesis by (simp add: res_def BulkCreateDomains_def)
next
  case False
  obtain f1 db1 where b: "next_fault db = (f1, db1)" by (cases "next_fault db")
  obtain f2 tx where p: "next_fault db1 = (f2, tx)" by (cases "next_fault db1")
  obtain ir tx' where i: "insert_all tx reqs now [] = (ir, tx')"
    by (cases "insert_all tx reqs now []")
  obtain f3 db2 where c: "next_fault tx' = (f3, db2)" by (cases "next_fault tx'")
  obtain fr db3 where f: "fetch_all db2 (projr ir) [] = (fr, db3)"
    by (cases "fetch_all db2 (projr ir) []")
  have d1: "domains_tbl db1 = domains_tbl db" using b by (rule next_fault_domains)
  have d2: "domains_tbl tx = domains_tbl db1" using p by (rule next_fault_domains)
  have d3: "domains_tbl db2 = domains_tbl tx'" using c by (rule next_fault_domains)
  have d4: "domains_tbl db3 = domains_tbl db2" using f by (rule fetch_all_domains)
  show ?thesis
  proof (cases f1)
    case (Some m)
    with False b d1 show ?thesis by (simp add: res_def BulkCreateDomains_def)
  next
    case None
    note f1 = this
    show ?thesis
    proof (cases f2)
      case (Some m)
      with False b p f1 show ?thesis
        by (simp add: res_def BulkCreateDomains_def Rollback_def)
    next
      case None
      note f2 = this
      show ?thesis
      proof (cases ir)
        case (Inl e)
        with False b p i f1 f2 show ?thesis
          by (simp add: res_def BulkCreateDomains_def Rollback_def)
      next
        case (Inr names)
        note ir = this
        show ?thesis
        proof (cases f3)
          case (Some m)
          with False b p i c f1 f2 ir show ?thesis
            by (simp add: res_def BulkCreateDomains_def Rollback_def)
        next
          case None
          with False b p i c f f1 f2 ir have "res = (fr, db3)"
            by (simp add: res_def BulkCreateDomains_def)
          with d1 d2 d3 d4 i ir show ?thesis by auto
        qed
      qed
    qed
  qed
qed

lemma BulkCreateDomains_healthy:
  assumes "faults db = []" and "\<not> batch_duplicate db reqs"
  shows "\<exists>created db'. BulkCreateDomains db reqs now = (Inr created, db')
           \<and> map Domain created = map req_Domain reqs"
proof (cases "reqs = []")
  case True
  then show ?thesis by (simp add: BulkCreateDomains_def)
next
  case False
  from assms(2) have dist: "distinct (map req_Domain reqs)"
    and fresh: "\<forall>req\<in>set reqs. domains_tbl db (req_Domain req) = None"
    by (auto simp: batch_duplicate_def)
  from insert_all_healthy [OF assms(1) dist fresh, of now "[]"] obtain names tx' where
    i: "insert_all db reqs now [] = (Inr names, tx')" and h: "faults tx' = []"
    by blast
  from insert_all_Inr [OF i] have n: "names = map req_Domain reqs"
    and p: "\<forall>req\<in>set reqs. domains_tbl tx' (req_Domain req) \<noteq> None"
    by auto
  from p n have "\<forall>n\<in>set names. domains_tbl tx' n \<noteq> None" by auto
  from fetch_all_present [OF h this, of "[]"] obtain created where
    "fetch_all tx' names [] = (Inr created, tx')" "map Domain created = names"
    by auto
  with False assms(1) i h n show ?thesis
    by (simp add: BulkCreateDomains_def next_fault_healthy)
qed

text \<open>
  C3. The bulk insert is all or nothing. A batch with a duplicate, against the table or
  within itself, returns an error and leaves the table as it was. A call that returns the
  created records has stored every record of the batch and changed no other key. Whatever
  the storage does, the table afterwards is the old one or the old one with the whole batch.
  When the storage carries every statement out and the batch has no duplicate, the call
  returns the created records, one for each request.
\<close>

theorem BulkCreateDomains_all_or_nothing:
  fixes db reqs now
  defines "res \<equiv> BulkCreateDomains db reqs now"
  shows "(batch_duplicate db reqs \<longrightarrow>
            (\<exists>e. fst res = Inl e) \<and> domains_tbl (snd res) = domains_tbl db)
       \<and> (\<forall>created. fst res = Inr created \<longrightarrow> batch_persisted db reqs now (snd res))
       \<and> (domains_tbl (snd res) = domains_tbl db \<or> batch_persisted db reqs now (snd res))
       \<and> (faults db = [] \<and> \<not> batch_duplicate db reqs \<longrightarrow>
            (\<exists>created. fst res = Inr created \<and> map Domain created = map req_Domain reqs))"
proof -
  from BulkCreateDomains_cases [of db reqs now]
  consider (nothing) "domains_tbl (snd res) = domains_tbl db" "\<exists>e. fst res = Inl e"
    | (empty) "reqs = []" "res = (Inr [], db)"
    | (all) tx names tx' where "domains_tbl tx = domains_tbl db"
        "insert_all tx reqs now [] = (Inr names, tx')" "domains_tbl (snd res) = domains_tbl tx'"
    unfolding res_def by blast
  then have main: "(batch_duplicate db reqs \<longrightarrow>
            (\<exists>e. fst res = Inl e) \<and> domains_tbl (snd res) = domains_tbl db)
       \<and> (\<forall>created. fst res = Inr created \<longrightarrow> batch_persisted db reqs now (snd res))
       \<and> (domains_tbl (snd res) = domains_tbl db \<or> batch_persisted db reqs now (snd res))"
  proof cases
    case nothing
    then show ?thesis by auto
  next
    case empty
    then show ?thesis by (simp add: batch_duplicate_def batch_persisted_def)
  next
    case all
    from insert_all_Inr [OF all(2)] all(1,3)
    have "batch_persisted db reqs now (snd res)" and "\<not> batch_duplicate db reqs"
      by (auto simp: batch_persisted_def batch_duplicate_def)
    then show ?thesis by simp
  qed
  have "faults db = [] \<and> \<not> batch_duplicate db reqs \<longrightarrow>
            (\<exists>created. fst res = Inr created \<and> map Domain created = map req_Domain reqs)"
    using BulkCreateDomains_healthy [of db reqs now] unfolding res_def by fastforce
  with main show ?thesis by simp
qed

lemma batch_dup_duplicate: "batch_duplicate db_a batch_dup"
  by (simp add: batch_duplicate_def batch_dup_def db_a_def)

lemma batch_ok_fresh: "faults db_a = [] \<and> \<not> batch_duplicate db_a batch_ok"
  by (simp add: batch_duplicate_def batch_ok_def db_a_def)

theorem BulkCreateDomains_all_or_nothing_witness:
  "batch_duplicate db_a batch_dup
   \<and> fst (BulkCreateDomains db_a batch_dup 9)
       = Inl (Wrapf ''failed to create domain a.com'' ErrConstraintUnique)
   \<and> domains_tbl (snd (BulkCreateDomains db_a batch_dup 9)) = domains_tbl db_a
   \<and> faults db_a = []
   \<and> \<not> batch_duplicate db_a batch_ok
   \<and> map Domain (projr (fst (BulkCreateDomains db_a batch_ok 9))) = [''b.com'', ''c.com'']
   \<and> batch_persisted db_a batch_ok 9 (snd (BulkCreateDomains db_a batch_ok 9))"
proof -
  have e: "fst (BulkCreateDomains db_a batch_dup 9)
       = Inl (Wrapf ''failed to create domain a.com'' ErrConstraintUnique)"
    by (simp add: BulkCreateDomains_def batch_dup_def db_a_def next_fault_def exec_insert_def
        Rollback_def)
  from BulkCreateDomains_all_or_nothing [of db_a batch_dup 9]
       BulkCreateDomains_all_or_nothing [of db_a batch_ok 9]
       batch_dup_duplicate batch_ok_fresh e
  show ?thesis by (auto simp: batch_ok_def)
qed

section \<open>Properties of the dispatcher\<close>

declare nat_digits.simps [simp del]

lemma take1_eq: "take (Suc 0) xs = [c] \<Longrightarrow> c \<in> set xs"
  by (cases xs) auto

lemma last_index_from_absent:
  "c \<notin> set s \<Longrightarrow> last_index_from s [c] n = - 1"
proof (induction n)
  case 0
  then show ?case by (auto dest: take1_eq)
next
  case (Suc n)
  then show ?case by (auto dest!: take1_eq in_set_dropD)
qed

lemma last_index_from_split:
  "c \<notin> set suffix \<Longrightarrow> length key \<le> n \<Longrightarrow>
     last_index_from (key @ c # suffix) [c] n = int (length key)"
proof (induction n)
  case 0
  then show ?case by simp
next
  case (Suc n)
  show ?case
  proof (cases "length key = Suc n")
    case True
    then show ?thesis by simp
  next
    case False
    with Suc.prems have le: "length key \<le> n" by simp
    then have "drop (Suc n) (key @ c # suffix) = drop (n - length key) suffix"
      by (simp add: Suc_diff_le)
    with Suc.prems(1) have "take (Suc 0) (drop (Suc n) (key @ c # suffix)) \<noteq> [c]"
      by (auto dest!: take1_eq in_set_dropD)
    with Suc.IH [OF Suc.prems(1) le] show ?thesis by simp
  qed
qed

lemma domainName_no_colon: "CHR '':'' \<notin> set host \<Longrightarrow> domainName host = host"
  by (simp add: domainName_def LastIndex_def last_index_from_absent)

lemma domainName_split:
  "CHR '':'' \<notin> set suffix \<Longrightarrow> domainName (key @ '':'' @ suffix) = key"
  by (simp add: domainName_def LastIndex_def last_index_from_split)

lemma domainName_colon:
  assumes "CHR '':'' \<in> set host"
  shows "\<exists>suffix. CHR '':'' \<notin> set suffix \<and> host = domainName host @ '':'' @ suffix"
proof -
  from split_list_last [OF assms] obtain key suffix where
    "host = key @ CHR '':'' # suffix" "CHR '':'' \<notin> set suffix" by blast
  then show ?thesis using domainName_split [of suffix key] by auto
qed

lemma itoa_80: "itoa 80 = ''80''"
  by code_simp

lemma domainName_example: "domainName ''example.com:8443'' = ''example.com''"
  using domainName_split [of "''8443''" "''example.com''"] by simp

lemma domainName_old: "domainName ''old.com'' = ''old.com''"
  by (rule domainName_no_colon) simp

lemma ServeHTTP_lookup:
  assumes "ReqHost r \<noteq> ''''"
  shows "ServeHTTP url_Parse RoundTrip db r =
      (case GetDomain db (domainName (ReqHost r)) of
         (Inl err, db') \<Rightarrow> ((http_Error ''Internal server error'' 500, None), db')
       | (Inr None, db') \<Rightarrow> ((http_Error ''Domain not found'' 404, None), db')
       | (Inr (Some domain), db') \<Rightarrow>
           (case url_Parse (targetURL domain) of
              Inl err \<Rightarrow> ((http_Error ''Invalid target configuration'' 500, None), db')
            | Inr target \<Rightarrow>
                (case RoundTrip (Director target r r) of
                   Inl err \<Rightarrow> ((ErrorHandler err, Some (Director target r r)), db')
                 | Inr res \<Rightarrow> ((res, Some (Director target r r)), db'))))"
  using assms
  by (cases "GetDomain db (domainName (ReqHost r))")
     (auto simp: ServeHTTP_def ReverseProxy_ServeHTTP_def Let_def
           split: sum.splits option.splits prod.splits)

text \<open>
  C6. For a request with a non-empty host the routing key is the host up to its last colon
  when it has a colon, so that the host is the key, a colon and a suffix without a colon,
  and the host itself when it has none. That key is what the dispatcher looks up: its result
  is decided by the registry's lookup of the key. When the storage works and the table has
  no record under the key, the response is not found; when it has one, the request is sent
  to the target of that record and the backend's response, or the error of contacting it,
  is the result; when the lookup fails, the response is the internal error.
\<close>

theorem ServeHTTP_routing_key:
  assumes "ReqHost r \<noteq> ''''"
  shows "(CHR '':'' \<in> set (ReqHost r) \<longrightarrow>
           (\<exists>port. CHR '':'' \<notin> set port \<and> ReqHost r = domainName (ReqHost r) @ '':'' @ port))
       \<and> (CHR '':'' \<notin> set (ReqHost r) \<longrightarrow> domainName (ReqHost r) = ReqHost r)
       \<and> ServeHTTP url_Parse RoundTrip db r =
           (case GetDomain db (domainName (ReqHost r)) of
              (Inl err, db') \<Rightarrow> ((http_Error ''Internal server error'' 500, None), db')
            | (Inr None, db') \<Rightarrow> ((http_Error ''Domain not found'' 404, None), db')
            | (Inr (Some domain), db') \<Rightarrow>
                (case url_Parse (targetURL domain) of
                   Inl err \<Rightarrow> ((http_Error ''Invalid target configuration'' 500, None), db')
                 | Inr target \<Rightarrow>
                     (case RoundTrip (Director target r r) of
                        Inl err \<Rightarrow> ((ErrorHandler err, Some (Director target r r)), db')
                      | Inr res \<Rightarrow> ((res, Some (Director target r r)), db'))))
       \<and> (faults db = [] \<and> domains_tbl db (domainName (ReqHost r)) = None \<longrightarrow>
            ServeHTTP url_Parse RoundTrip db r = ((http_Error ''Domain not found'' 404, None), db))
       \<and> (\<forall>row. faults db = [] \<and> domains_tbl db (domainName (ReqHost r)) = Some row \<longrightarrow>
            ServeHTTP url_Parse RoundTrip db r =
              (case url_Parse (targetURL \<lparr>Domain = domainName (ReqHost r), IP = col_ip row,
                      Port = col_port row, Protocol = col_protocol row,
                      CreatedAt = col_created_at row, UpdatedAt = col_updated_at row\<rparr>) of
                 Inl err \<Rightarrow> ((http_Error ''Invalid target configuration'' 500, None), db)
               | Inr target \<Rightarrow>
                   (case RoundTrip (Director target r r) of
                      Inl err \<Rightarrow> ((ErrorHandler err, Some (Director target r r)), db)
                    | Inr res \<Rightarrow> ((res, Some (Director target r r)), db))))
       \<and> (\<forall>m fs. faults db = Some m # fs \<longrightarrow>
            ServeHTTP url_Parse RoundTrip db r
              = ((http_Error ''Internal server error'' 500, None), db\<lparr>faults := fs\<rparr>))"
proof -
  note l = ServeHTTP_lookup [OF assms, of url_Parse RoundTrip db]
  have miss: "faults db = [] \<and> domains_tbl db (domainName (ReqHost r)) = None \<longrightarrow>
            ServeHTTP url_Parse RoundTrip db r = ((http_Error ''Domain not found'' 404, None), db)"
    by (simp add: l GetDomain_healthy)
  have hit: "\<forall>row. faults db = [] \<and> domains_tbl db (domainName (ReqHost r)) = Some row \<longrightarrow>
            ServeHTTP url_Parse RoundTrip db r =
              (case url_Parse (targetURL \<lparr>Domain = domainName (ReqHost r), IP = col_ip row,
                      Port = col_port row, Protocol = col_protocol row,
                      CreatedAt = col_created_at row, UpdatedAt = col_updated_at row\<rparr>) of
                 Inl err \<Rightarrow> ((http_Error ''Invalid target configuration'' 500, None), db)
               | Inr target \<Rightarrow>
                   (case RoundTrip (Director target r r) of
                      Inl err \<Rightarrow> ((ErrorHandler err, Some (Director target r r)), db)
                    | Inr res \<Rightarrow> ((res, Some (Director target r r)), db)))"
    by (simp add: l GetDomain_healthy)
  have fault: "\<forall>m fs. faults db = Some m # fs \<longrightarrow>
            ServeHTTP url_Parse RoundTrip db r
              = ((http_Error ''Internal server error'' 500, None), db\<lparr>faults := fs\<rparr>)"
    by (simp add: l GetDomain_def query_row_def next_fault_def)
  from domainName_colon [of "ReqHost r"] domainName_no_colon [of "ReqHost r"] l miss hit fault
  show ?thesis by blast
qed

theorem ServeHTTP_routing_key_witness:
  "ReqHost (req_in ''example.com:8443'') \<noteq> ''''
   \<and> CHR '':'' \<in> set (ReqHost (req_in ''example.com:8443''))
   \<and> domainName (ReqHost (req_in ''example.com:8443'')) = ''example.com''
   \<and> faults db_a = [] \<and> domains_tbl db_a ''example.com'' = None
   \<and> ServeHTTP url_Parse_sample backend_ok db_a (req_in ''example.com:8443'')
        = ((http_Error ''Domain not found'' 404, None), db_a)
   \<and> faults db_e = [] \<and> domains_tbl db_e ''example.com'' = Some row_e
   \<and> ServeHTTP url_Parse_sample backend_ok db_e (req_in ''example.com:8443'')
        = ((\<lparr>StatusCode = 200, Body = Text ''hello''\<rparr>,
            Some (Director url_backend (req_in ''example.com:8443'')
                    (req_in ''example.com:8443''))), db_e)
   \<and> faults db_fault = [Some ''disk I/O error'']
   \<and> ServeHTTP url_Parse_sample backend_ok db_fault (req_in ''example.com:8443'')
        = ((http_Error ''Internal server error'' 500, None), db_e)
   \<and> CHR '':'' \<notin> set (ReqHost (req_in ''old.com''))
   \<and> domainName (ReqHost (req_in ''old.com'')) = ''old.com''"
proof -
  let ?r = "req_in ''example.com:8443''"
  have h: "ReqHost ?r \<noteq> ''''" "ReqHost (req_in ''old.com'') \<noteq> ''''"
    by (simp_all add: req_in_def)
  have k: "domainName (ReqHost ?r) = ''example.com''"
    using domainName_example by (simp add: req_in_def)
  have a: "faults db_a = []" "domains_tbl db_a ''example.com'' = None"
    by (simp_all add: db_a_def)
  have e: "faults db_e = []" "domains_tbl db_e ''example.com'' = Some row_e"
    by (simp_all add: db_e_def)
  have f: "faults db_fault = [Some ''disk I/O error'']" "db_fault\<lparr>faults := []\<rparr> = db_e"
    by (simp_all add: db_fault_def db_e_def)
  have t: "targetURL \<lparr>Domain = ''example.com'', IP = col_ip row_e, Port = col_port row_e,
             Protocol = col_protocol row_e, CreatedAt = col_created_at row_e,
             UpdatedAt = col_updated_at row_e\<rparr> = ''http://10.1.1.1:80''"
    by (simp add: targetURL_def row_e_def itoa_80)
  have p: "url_Parse_sample ''http://10.1.1.1:80'' = Inr url_backend"
    by (simp add: url_Parse_sample_def)
  from ServeHTTP_routing_key [where r="?r" and db=db_a and url_Parse=url_Parse_sample
         and RoundTrip=backend_ok, OF h(1)]
  have "faults db_a = [] \<and> domains_tbl db_a (domainName (ReqHost ?r)) = None \<longrightarrow>
          ServeHTTP url_Parse_sample backend_ok db_a ?r
            = ((http_Error ''Domain not found'' 404, None), db_a)"
    by blast
  with k a have miss: "ServeHTTP url_Parse_sample backend_ok db_a ?r
        = ((http_Error ''Domain not found'' 404, None), db_a)"
    by simp
  from ServeHTTP_routing_key [where r="?r" and db=db_e and url_Parse=url_Parse_sample
         and RoundTrip=backend_ok, OF h(1)]
  have "faults db_e = [] \<and> domains_tbl db_e (domainName (ReqHost ?r)) = Some row_e \<longrightarrow>
          ServeHTTP url_Parse_sample backend_ok db_e ?r =
          (case url_Parse_sample (targetURL \<lparr>Domain = domainName (ReqHost ?r), IP = col_ip row_e,
                      Port = col_port row_e, Protocol = col_protocol row_e,
                      CreatedAt = col_created_at row_e, UpdatedAt = col_updated_at row_e\<rparr>) of
                 Inl err \<Rightarrow> ((http_Error ''Invalid target configuration'' 500, None), db_e)
               | Inr target \<Rightarrow>
                   (case backend_ok (Director target ?r ?r) of
                      Inl err \<Rightarrow> ((ErrorHandler err, Some (Director target ?r ?r)), db_e)
                    | Inr res \<Rightarrow> ((res, Some (Director target ?r ?r)), db_e)))"
    by blast
  with k e have hit: "ServeHTTP url_Parse_sample backend_ok db_e ?r
        = ((\<lparr>StatusCode = 200, Body = Text ''hello''\<rparr>, Some (Director url_backend ?r ?r)), db_e)"
    by (simp add: t p backend_ok_def)
  from ServeHTTP_routing_key [where r="?r" and db=db_fault and url_Parse=url_Parse_sample
         and RoundTrip=backend_ok, OF h(1)]
  have "faults db_fault = Some ''disk I/O error'' # [] \<longrightarrow>
          ServeHTTP url_Parse_sample backend_ok db_fault ?r
            = ((http_Error ''Internal server error'' 500, None), db_fault\<lparr>faults := []\<rparr>)"
    by blast
  with f have fault: "ServeHTTP url_Parse_sample backend_ok db_fault ?r
        = ((http_Error ''Internal server error'' 500, None), db_e)"
    by simp
  have o: "CHR '':'' \<notin> set (ReqHost (req_in ''old.com''))"
    "domainName (ReqHost (req_in ''old.com'')) = ''old.com''"
    using domainName_old by (simp_all add: req_in_def)
  have c: "CHR '':'' \<in> set (ReqHost ?r)"
    by (simp add: req_in_def)
  from h k a e f(1) miss hit fault o c show ?thesis by simp
qed

lemma ServeHTTP_response:
  assumes "ReqHost r \<noteq> ''''"
  shows "fst (ServeHTTP url_Parse RoundTrip db r) =
      (case fst (GetDomain db (domainName (ReqHost r))) of
         Inl err \<Rightarrow> (http_Error ''Internal server error'' 500, None)
       | Inr None \<Rightarrow> (http_Error ''Domain not found'' 404, None)
       | Inr (Some domain) \<Rightarrow>
           (case url_Parse (targetURL domain) of
              Inl err \<Rightarrow> (http_Error ''Invalid target configuration'' 500, None)
            | Inr target \<Rightarrow>
                (case RoundTrip (Director target r r) of
                   Inl err \<Rightarrow> (ErrorHandler err, Some (Director target r r))
                 | Inr res \<Rightarrow> (res, Some (Director target r r)))))"
  using assms
  by (cases "GetDomain db (domainName (ReqHost r))")
     (auto simp: ServeHTTP_def ReverseProxy_ServeHTTP_def Let_def
           split: sum.splits option.splits prod.splits)

lemma ServeHTTP_reads_only:
  "domains_tbl (snd (ServeHTTP url_Parse RoundTrip db r)) = domains_tbl db"
proof (cases "GetDomain db (domainName (ReqHost r))")
  case (Pair g db')
  then have "domains_tbl db' = domains_tbl db" by (rule GetDomain_domains)
  with Pair show ?thesis
    by (auto simp: ServeHTTP_def Let_def split: sum.splits option.splits prod.splits)
qed

lemma GetDomain_hit:
  assumes "fst (GetDomain db k) = Inr (Some d)"
  shows "\<exists>row. domains_tbl db k = Some row \<and>
           d = \<lparr>Domain = k, IP = col_ip row, Port = col_port row, Protocol = col_protocol row,
                CreatedAt = col_created_at row, UpdatedAt = col_updated_at row\<rparr>"
  using assms
  by (cases db rule: next_fault_cases)
     (auto simp: GetDomain_def query_row_def split: option.splits)

lemma Director_clone:
  "Director target r r =
     r\<lparr>URL := (URL r)\<lparr>Scheme := Scheme target, Host := Host target\<rparr>,
       ReqHost := Host target, RequestURI := ''''\<rparr>"
  by (simp add: Director_def)

lemma GetDomain_example: "fst (GetDomain db_e ''example.com'') =
    Inr (Some \<lparr>Domain = ''example.com'', IP = ''10.1.1.1'', Port = 80, Protocol = ''http'',
               CreatedAt = 1, UpdatedAt = 1\<rparr>)"
  by (simp add: GetDomain_def query_row_def next_fault_def db_e_def row_e_def)

lemma targetURL_example: "targetURL \<lparr>Domain = ''example.com'', IP = ''10.1.1.1'', Port = 80,
    Protocol = ''http'', CreatedAt = 1, UpdatedAt = 1\<rparr> = ''http://10.1.1.1:80''"
  by (simp add: targetURL_def itoa_80)

lemma GetDomain_old: "fst (GetDomain db_e ''old.com'') =
    Inr (Some \<lparr>Domain = ''old.com'', IP = ''10.1.1.1'', Port = 80, Protocol = '''',
               CreatedAt = 0, UpdatedAt = 0\<rparr>)"
  by (simp add: GetDomain_def query_row_def next_fault_def db_e_def row_old_def)

text \<open>
  On a lookup hit with a target that parses, the outbound request has the fields of the
  inbound one but for the scheme and the host of the URL, the host field and the request
  URI; when the inbound URL is not opaque, the request target written for the outbound
  request is the one the library writes for the inbound URL.
\<close>

lemma ServeHTTP_outbound_fields:
  assumes "ReqHost r \<noteq> ''''"
      and "fst (GetDomain db (domainName (ReqHost r))) = Inr (Some d)"
      and "url_Parse (targetURL d) = Inr target"
  shows "\<exists>out. snd (fst (ServeHTTP url_Parse RoundTrip db r)) = Some out
           \<and> out = r\<lparr>URL := (URL r)\<lparr>Scheme := Scheme target, Host := Host target\<rparr>,
                      ReqHost := Host target, RequestURI := ''''\<rparr>
           \<and> Path (URL out) = Path (URL r) \<and> RawPath (URL out) = RawPath (URL r)
           \<and> RawQuery (URL out) = RawQuery (URL r) \<and> Fragment (URL out) = Fragment (URL r)
           \<and> Scheme (URL out) = Scheme target \<and> Host (URL out) = Host target
           \<and> (\<forall>req. Path (URL (Director target r req)) = Path (URL r)
                  \<and> RawPath (URL (Director target r req)) = RawPath (URL r)
                  \<and> RawQuery (URL (Director target r req)) = RawQuery (URL r)
                  \<and> Fragment (URL (Director target r req)) = Fragment (URL r))"
proof -
  have "snd (fst (ServeHTTP url_Parse RoundTrip db r)) = Some (Director target r r)"
    using assms by (simp add: ServeHTTP_response split: sum.splits)
  moreover have "\<forall>req. Path (URL (Director target r req)) = Path (URL r)
                  \<and> RawPath (URL (Director target r req)) = RawPath (URL r)
                  \<and> RawQuery (URL (Director target r req)) = RawQuery (URL r)
                  \<and> Fragment (URL (Director target r req)) = Fragment (URL r)"
    by (simp add: Director_def)
  ultimately show ?thesis by (simp add: Director_clone)
qed

lemma ServeHTTP_outbound_fields_example:
  "ReqHost (req_in ''example.com:8443'') \<noteq> ''''
   \<and> url_Parse_sample ''http://10.1.1.1:80'' = Inr url_backend
   \<and> snd (fst (ServeHTTP url_Parse_sample backend_ok db_e (req_in ''example.com:8443'')))
       = Some \<lparr>Method = ''GET'',
               URL = \<lparr>Scheme = ''http'', Opaque = '''', User = None, Host = ''10.1.1.1:80'',
                      Path = ''/a/b'', RawPath = ''/a%2Fb'', ForceQuery = False,
                      RawQuery = ''x=1'', Fragment = ''frag'', RawFragment = ''''\<rparr>,
               Header = Map.empty, ReqBody = '''', ReqHost = ''10.1.1.1:80'',
               RemoteAddr = ''192.0.2.7:5000'', RequestURI = ''''\<rparr>"
proof -
  have p: "url_Parse_sample ''http://10.1.1.1:80'' = Inr url_backend"
    by (simp add: url_Parse_sample_def)
  from ServeHTTP_outbound_fields [of "req_in ''example.com:8443''" db_e
         "\<lparr>Domain = ''example.com'', IP = ''10.1.1.1'', Port = 80, Protocol = ''http'',
           CreatedAt = 1, UpdatedAt = 1\<rparr>" url_Parse_sample url_backend backend_ok]
       GetDomain_example targetURL_example domainName_example p
  show ?thesis by (simp add: req_in_def url_in_def url_backend_def)
qed

lemma Director_clone_RequestURI:
  "Opaque (URL r) = '''' \<Longrightarrow> URL_RequestURI (URL (Director target r r)) = URL_RequestURI (URL r)"
  by (simp add: URL_RequestURI_def EscapedPath_def Director_def Let_def)

lemma setPath_brace: "setPath ''/a%2Fb{x}'' = Some (''/a/b{x}'', ''/a%2Fb{x}'')"
  by code_simp

lemma setPath_encoded: "setPath ''/a%2Fb'' = Some (''/a/b'', ''/a%2Fb'')"
  by code_simp

lemma RequestURI_brace:
  "URL_RequestURI (URL (Director url_backend req_brace req_brace)) = ''/a/b%7Bx%7D?x=1''"
  by code_simp

lemma RequestURI_encoded:
  "URL_RequestURI (URL (Director url_backend req_encoded req_encoded)) = ''/a%2Fb?x=1#frag''"
  by code_simp

lemma ServeHTTP_example:
  assumes "ReqHost r = ''example.com:8443''"
  shows "ServeHTTP url_Parse_sample backend_echo db_e r =
           ((\<lparr>StatusCode = 200,
               Body = Text (URL_RequestURI (URL (Director url_backend r r)))\<rparr>,
             Some (Director url_backend r r)), db_e)"
proof -
  have h: "ReqHost r \<noteq> ''''" using assms by simp
  have e: "faults db_e = []" "domains_tbl db_e ''example.com'' = Some row_e"
    by (simp_all add: db_e_def)
  have t: "targetURL \<lparr>Domain = ''example.com'', IP = col_ip row_e, Port = col_port row_e,
             Protocol = col_protocol row_e, CreatedAt = col_created_at row_e,
             UpdatedAt = col_updated_at row_e\<rparr> = ''http://10.1.1.1:80''"
    by (simp add: targetURL_def row_e_def itoa_80)
  have p: "url_Parse_sample ''http://10.1.1.1:80'' = Inr url_backend"
    by (simp add: url_Parse_sample_def)
  show ?thesis
    by (simp add: ServeHTTP_lookup [OF h] assms domainName_example GetDomain_healthy e t p
        backend_echo_def)
qed

lemma ServeHTTP_encoded_path_kept:
  "inbound ''example.com:8443'' ''/a%2Fb'' ''x=1#frag'' = Some req_encoded
   \<and> ServeHTTP url_Parse_sample backend_echo db_e req_encoded =
       ((\<lparr>StatusCode = 200, Body = Text ''/a%2Fb?x=1#frag''\<rparr>,
         Some (Director url_backend req_encoded req_encoded)), db_e)"
proof -
  have i: "inbound ''example.com:8443'' ''/a%2Fb'' ''x=1#frag'' = Some req_encoded"
    by (simp add: inbound_def setPath_encoded req_encoded_def)
  have h: "ReqHost req_encoded = ''example.com:8443''"
    by (simp add: req_encoded_def)
  from ServeHTTP_example [OF h] RequestURI_encoded i show ?thesis by simp
qed

text \<open>
  C1. A request for \<open>/a%2Fb{x}?x=1\<close> with the host of a stored record: the server stores
  the path \<open>/a/b{x}\<close> and the raw path \<open>/a%2Fb{x}\<close>, the director copies both, and the
  request target sent to the backend is \<open>/a/b%7Bx%7D?x=1\<close>, since the raw path with a brace
  is not a valid encoding and the library escapes the decoded path instead. The encoded
  slash arrives decoded and the braces arrive encoded, so the path is not the one received.
\<close>

theorem ServeHTTP_reencodes_path:
  "inbound ''example.com:8443'' ''/a%2Fb{x}'' ''x=1'' = Some req_brace
   \<and> RequestURI req_brace = ''/a%2Fb{x}?x=1''
   \<and> ServeHTTP url_Parse_sample backend_echo db_e req_brace =
       ((\<lparr>StatusCode = 200, Body = Text ''/a/b%7Bx%7D?x=1''\<rparr>,
         Some (Director url_backend req_brace req_brace)), db_e)
   \<and> URL_RequestURI (URL (Director url_backend req_brace req_brace)) = ''/a/b%7Bx%7D?x=1''"
proof -
  have i: "inbound ''example.com:8443'' ''/a%2Fb{x}'' ''x=1'' = Some req_brace"
    by (simp add: inbound_def setPath_brace req_brace_def)
  have h: "ReqHost req_brace = ''example.com:8443''" "RequestURI req_brace = ''/a%2Fb{x}?x=1''"
    by (simp_all add: req_brace_def)
  from ServeHTTP_example [OF h(1)] RequestURI_brace i h show ?thesis by simp
qed

text \<open>
  C9. For a lookup that finds a record with an empty protocol, the target handed to the URL
  parser is \<open>http://\<close> followed by the address, a colon and the port in decimal: when it
  parses, the outbound request goes to its scheme and host, and when it does not, the
  response is the invalid-target error. The table is as it was afterwards, and the record
  stored under the key still has the empty protocol.
\<close>

theorem ServeHTTP_default_scheme:
  assumes "ReqHost r \<noteq> ''''"
      and "fst (GetDomain db (domainName (ReqHost r))) = Inr (Some d)"
      and "Protocol d = ''''"
  shows "targetURL d = ''http://'' @ IP d @ '':'' @ itoa (Port d)
       \<and> (\<forall>target. url_Parse (''http://'' @ IP d @ '':'' @ itoa (Port d)) = Inr target \<longrightarrow>
             snd (fst (ServeHTTP url_Parse RoundTrip db r)) = Some (Director target r r)
             \<and> Scheme (URL (Director target r r)) = Scheme target
             \<and> Host (URL (Director target r r)) = Host target)
       \<and> (\<forall>err. url_Parse (''http://'' @ IP d @ '':'' @ itoa (Port d)) = Inl err \<longrightarrow>
             fst (ServeHTTP url_Parse RoundTrip db r)
               = (http_Error ''Invalid target configuration'' 500, None))
       \<and> domains_tbl (snd (ServeHTTP url_Parse RoundTrip db r)) = domains_tbl db
       \<and> (\<exists>row. domains_tbl (snd (ServeHTTP url_Parse RoundTrip db r)) (domainName (ReqHost r))
                   = Some row \<and> col_protocol row = '''')"
proof -
  have t: "targetURL d = ''http://'' @ IP d @ '':'' @ itoa (Port d)"
    using assms(3) by (simp add: targetURL_def)
  from GetDomain_hit [OF assms(2)] assms(3)
  have "\<exists>row. domains_tbl db (domainName (ReqHost r)) = Some row \<and> col_protocol row = ''''"
    by auto
  then show ?thesis
    using assms(1,2) t
    by (auto simp: ServeHTTP_response ServeHTTP_reads_only Director_def split: sum.splits)
qed

theorem ServeHTTP_default_scheme_witness:
  "ReqHost (req_in ''old.com'') \<noteq> ''''
   \<and> map_option col_protocol (domains_tbl db_e ''old.com'') = Some ''''
   \<and> url_Parse_sample ''http://10.1.1.1:80'' = Inr url_backend
   \<and> snd (fst (ServeHTTP url_Parse_sample backend_ok db_e (req_in ''old.com'')))
        = Some (Director url_backend (req_in ''old.com'') (req_in ''old.com''))
   \<and> Scheme (URL (Director url_backend (req_in ''old.com'') (req_in ''old.com''))) = ''http''
   \<and> Host (URL (Director url_backend (req_in ''old.com'') (req_in ''old.com''))) = ''10.1.1.1:80''
   \<and> domains_tbl (snd (ServeHTTP url_Parse_sample backend_ok db_e (req_in ''old.com'')))
        = domains_tbl db_e"
proof -
  have p: "url_Parse_sample (''http://'' @ ''10.1.1.1'' @ '':'' @ itoa 80) = Inr url_backend"
    by (simp add: url_Parse_sample_def itoa_80)
  from ServeHTTP_default_scheme [of "req_in ''old.com''" db_e
         "\<lparr>Domain = ''old.com'', IP = ''10.1.1.1'', Port = 80, Protocol = '''',
           CreatedAt = 0, UpdatedAt = 0\<rparr>" url_Parse_sample backend_ok]
       GetDomain_old domainName_old p
  show ?thesis
    by (simp add: req_in_def url_backend_def url_Parse_sample_def db_e_def row_old_def)
qed

text \<open>
  The two failures before the backend is contacted answer with a fixed text, whatever the
  error is; the failure of contacting the backend answers with the text of the error.
\<close>

lemma ServeHTTP_lookup_error_hidden:
  "ReqHost r \<noteq> '''' \<Longrightarrow> fst (GetDomain db (domainName (ReqHost r))) = Inl e \<Longrightarrow>
     fst (ServeHTTP url_Parse RoundTrip db r) = (http_Error ''Internal server error'' 500, None)"
  by (simp add: ServeHTTP_response)

lemma ServeHTTP_bad_target_hidden:
  "ReqHost r \<noteq> '''' \<Longrightarrow> fst (GetDomain db (domainName (ReqHost r))) = Inr (Some d) \<Longrightarrow>
   url_Parse (targetURL d) = Inl e \<Longrightarrow>
     fst (ServeHTTP url_Parse RoundTrip db r)
       = (http_Error ''Invalid target configuration'' 500, None)"
  by (simp add: ServeHTTP_response)

lemma ServeHTTP_backend_error_disclosed:
  "ReqHost r \<noteq> '''' \<Longrightarrow> fst (GetDomain db (domainName (ReqHost r))) = Inr (Some d) \<Longrightarrow>
   url_Parse (targetURL d) = Inr target \<Longrightarrow> RoundTrip (Director target r r) = Inl e \<Longrightarrow>
     fst (fst (ServeHTTP url_Parse RoundTrip db r))
       = \<lparr>StatusCode = 502, Body = Text (''Proxy error: '' @ Error e @ [CHR 0x0A])\<rparr>"
  by (simp add: ServeHTTP_response ErrorHandler_def http_Error_def)

text \<open>
  C7. A backend that refuses the connection: the response to the caller holds the text of
  the transport's error, with the address of the backend.
\<close>

theorem ServeHTTP_backend_down_response:
  "fst (fst (ServeHTTP url_Parse_sample backend_down db_e (req_in ''example.com:8443'')))
     = \<lparr>StatusCode = 502,
        Body = Text (''Proxy error: dial tcp 10.1.1.1:80: connect: connection refused''
                     @ [CHR 0x0A])\<rparr>"
proof -
  have p: "url_Parse_sample ''http://10.1.1.1:80'' = Inr url_backend"
    by (simp add: url_Parse_sample_def)
  have "ReqHost (req_in ''example.com:8443'') \<noteq> ''''" by (simp add: req_in_def)
  from ServeHTTP_backend_error_disclosed [OF this, of db_e _ url_Parse_sample url_backend
         backend_down "Errorf ''dial tcp 10.1.1.1:80: connect: connection refused''"]
       GetDomain_example targetURL_example domainName_example p
  show ?thesis by (simp add: req_in_def backend_down_def)
qed

section \<open>Properties of the management API\<close>

text \<open>
  C10. A request to the management API whose host, cut at its last colon when it has one,
  differs from the administrative domain gets the response 403 Forbidden from the domain
  restriction, whatever the handlers, the authorization and the route's handler are, and
  the registry is as it was: neither the authentication nor a registry operation runs. A
  host that is the administrative domain followed by a colon and a port passes on to the
  next stage, the authentication.
\<close>

theorem DomainMiddleware_restricts:
  "(domainName (ReqHost r) \<noteq> allowedDomain \<longrightarrow>
      apiRouter allowedDomain h handler r db
        = (http_Error ''Forbidden: API access restricted to specific domain'' 403, db)
      \<and> StatusCode (fst (apiRouter allowedDomain h handler r db)) = 403)
   \<and> (CHR '':'' \<notin> set suffix \<and> ReqHost r = key @ '':'' @ suffix \<and> key \<noteq> allowedDomain \<longrightarrow>
      apiRouter allowedDomain h handler r db
        = (http_Error ''Forbidden: API access restricted to specific domain'' 403, db))
   \<and> (CHR '':'' \<notin> set (ReqHost r) \<and> ReqHost r \<noteq> allowedDomain \<longrightarrow>
      apiRouter allowedDomain h handler r db
        = (http_Error ''Forbidden: API access restricted to specific domain'' 403, db))
   \<and> (CHR '':'' \<notin> set port \<and> ReqHost r = allowedDomain @ '':'' @ port \<longrightarrow>
      DomainMiddleware allowedDomain next r db = next r db
      \<and> apiRouter allowedDomain h handler r db = AuthMiddleware h handler r db)"
proof -
  have deny: "domainName (ReqHost r) \<noteq> allowedDomain \<Longrightarrow>
      apiRouter allowedDomain h handler r db
        = (http_Error ''Forbidden: API access restricted to specific domain'' 403, db)"
    by (simp add: apiRouter_def DomainMiddleware_def)
  have pass: "domainName (ReqHost r) = allowedDomain \<Longrightarrow>
      DomainMiddleware allowedDomain n r db = n r db" for n
    by (simp add: DomainMiddleware_def)
  show ?thesis
    using deny pass domainName_split [of suffix key] domainName_split [of port allowedDomain]
      domainName_no_colon [of "ReqHost r"]
    by (auto simp: apiRouter_def http_Error_def)
qed

theorem DomainMiddleware_restricts_witness:
  "domainName (ReqHost (req_in ''example.com:8443'')) \<noteq> ''api.example.com''
   \<and> apiRouter ''api.example.com'' admin_handlers handler_sample (req_in ''example.com:8443'') db_a
        = (http_Error ''Forbidden: API access restricted to specific domain'' 403, db_a)
   \<and> CHR '':'' \<notin> set (ReqHost (req_in ''old.com''))
   \<and> apiRouter ''api.example.com'' admin_handlers handler_sample (req_in ''old.com'') db_a
        = (http_Error ''Forbidden: API access restricted to specific domain'' 403, db_a)
   \<and> CHR '':'' \<notin> set ''8443''
   \<and> DomainMiddleware ''api.example.com'' handler_sample (req_in ''api.example.com:8443'') db_a
        = (\<lparr>StatusCode = 204, Body = NoBody\<rparr>, db_a\<lparr>domains_tbl := Map.empty\<rparr>)
   \<and> apiRouter ''api.example.com'' admin_handlers handler_sample (req_in ''api.example.com:8443'') db_a
        = (http_Error ''Unauthorized'' 401, db_a)"
proof -
  have a: "AuthMiddleware admin_handlers handler_sample (req_in ''api.example.com:8443'') db_a
        = (http_Error ''Unauthorized'' 401, db_a)"
    by (simp add: AuthMiddleware_def admin_handlers_def NewHandlers_def req_in_def Header_Get_def)
  from DomainMiddleware_restricts [of "req_in ''example.com:8443''" "''api.example.com''"
         admin_handlers handler_sample db_a "''8443''" "''example.com''" "''8443''" handler_sample]
       DomainMiddleware_restricts [of "req_in ''api.example.com:8443''" "''api.example.com''"
         admin_handlers handler_sample db_a "''8443''" "''api.example.com''" "''8443''" handler_sample]
       DomainMiddleware_restricts [of "req_in ''old.com''" "''api.example.com''"
         admin_handlers handler_sample db_a "''8443''" "''example.com''" "''8443''" handler_sample]
       domainName_example a
  show ?thesis by (simp add: req_in_def handler_sample_def)
qed

text \<open>
  \<open>DB.UpdateDomain\<close> with an empty protocol keeps the stored protocol and sets the address,
  the port and the time of the update.
\<close>

lemma exec_update_healthy:
  "faults db = [] \<Longrightarrow> domains_tbl db d = Some row \<Longrightarrow>
     exec_update db i p proto now d =
       (Inr 1, db\<lparr>domains_tbl := (domains_tbl db)(d \<mapsto>
          row\<lparr>col_ip := i, col_port := p, col_protocol := proto, col_updated_at := now\<rparr>)\<rparr>)"
  by (simp add: exec_update_def next_fault_healthy)

lemma UpdateDomain_keeps_protocol:
  assumes "faults db = []" and "domains_tbl db domain = Some row" and "upd_Protocol req = ''''"
  shows "domains_tbl (snd (UpdateDomain db domain req now)) domain
           = Some (row\<lparr>col_ip := upd_IP req, col_port := upd_Port req, col_updated_at := now\<rparr>)"
    and "\<exists>d. fst (UpdateDomain db domain req now) = Inr (Some d)
           \<and> Protocol d = col_protocol row \<and> IP d = upd_IP req \<and> Port d = upd_Port req
           \<and> UpdatedAt d = now"
  using assms
  by (simp_all add: UpdateDomain_def do_update_def GetDomain_healthy exec_update_healthy)

lemma CreateDomain_sample: "snd (CreateDomain db_empty req_https 1) = db_a"
  by (simp add: Let_def CreateDomain_def exec_insert_def next_fault_def db_empty_def req_https_def
      GetDomain_def query_row_def db_a_def row_a_def)

lemma UpdateDomain_sample:
  "map_option col_protocol (domains_tbl (snd (UpdateDomain db_a ''a.com'' upd_no_scheme 9)) ''a.com'')
     = Some ''https''"
  using UpdateDomain_keeps_protocol(1) [of db_a "''a.com''" row_a upd_no_scheme 9]
  by (simp add: db_a_def upd_no_scheme_def row_a_def)

text \<open>
  C2. Through the handler of the API the stored scheme is not kept: \<open>Handlers.UpdateDomain\<close>
  replaces an omitted protocol by \<open>http\<close> before it calls the registry, so after inserting
  \<open>a.com\<close> with \<open>https\<close> and updating it without a protocol the stored scheme is \<open>http\<close>.
\<close>

theorem Handlers_UpdateDomain_resets_scheme:
  "snd (Handlers_CreateDomain (decode_create_sample req_https) 1 (req_in ''api.example.com'') db_empty)
     = db_a
   \<and> map_option col_protocol (domains_tbl db_a ''a.com'') = Some ''https''
   \<and> decode_update_sample (ReqBody (req_in ''api.example.com'')) = Inr upd_no_scheme
   \<and> upd_Protocol upd_no_scheme = ''''
   \<and> StatusCode (fst (Handlers_UpdateDomain PathUnescape_sample ''a.com'' decode_update_sample 9
        (req_in ''api.example.com'') db_a)) = 200
   \<and> map_option col_protocol
        (domains_tbl (snd (Handlers_UpdateDomain PathUnescape_sample ''a.com'' decode_update_sample 9
           (req_in ''api.example.com'') db_a)) ''a.com'')
       = Some ''http''"
  by (simp add: Let_def Handlers_CreateDomain_def Handlers_UpdateDomain_def decode_create_sample_def
      decode_update_sample_def PathUnescape_sample_def upd_no_scheme_def req_https_def
      CreateDomain_def UpdateDomain_def do_update_def exec_insert_def exec_update_def
      GetDomain_def query_row_def next_fault_def db_empty_def db_a_def row_a_def req_in_def)

section \<open>Invariants of the stored records\<close>

lemma CreateDomain_table:
  "domains_tbl (snd (CreateDomain db req now)) = domains_tbl db
   \<or> domains_tbl (snd (CreateDomain db req now))
       = (domains_tbl db)(req_Domain req \<mapsto> stored_row req now)"
proof -
  let ?proto = "if req_Protocol req = '''' then ''http'' else req_Protocol req"
  obtain res db1 where ex:
    "exec_insert db (req_Domain req) (req_IP req) (req_Port req) ?proto now = (res, db1)"
    by (cases "exec_insert db (req_Domain req) (req_IP req) (req_Port req) ?proto now")
  obtain g db2 where g: "GetDomain db1 (req_Domain req) = (g, db2)"
    by (cases "GetDomain db1 (req_Domain req)")
  then have same: "domains_tbl db2 = domains_tbl db1" by (rule GetDomain_domains)
  show ?thesis
  proof (cases res)
    case None
    from exec_insert_None(2) [OF ex [unfolded None]] ex None g same show ?thesis
      by (simp add: CreateDomain_def Let_def stored_row_def)
  next
    case (Some e)
    from exec_insert_Some [OF ex [unfolded Some]] ex Some show ?thesis
      by (simp add: CreateDomain_def Let_def)
  qed
qed

lemma exec_update_table:
  assumes "exec_update db i p proto now d = (res, db')"
  shows "domains_tbl db' = domains_tbl db
       \<or> (\<exists>row. domains_tbl db d = Some row \<and> domains_tbl db' = (domains_tbl db)(d \<mapsto>
             row\<lparr>col_ip := i, col_port := p, col_protocol := proto, col_updated_at := now\<rparr>))"
  using assms
  by (cases db rule: next_fault_cases)
     (auto simp: exec_update_def split: option.splits)

lemma do_update_table:
  "domains_tbl (snd (do_update db d req proto now)) = domains_tbl db
   \<or> (\<exists>row. domains_tbl db d = Some row \<and> domains_tbl (snd (do_update db d req proto now))
         = (domains_tbl db)(d \<mapsto> row\<lparr>col_ip := upd_IP req, col_port := upd_Port req,
                                        col_protocol := proto, col_updated_at := now\<rparr>))"
proof -
  obtain res db1 where ex: "exec_update db (upd_IP req) (upd_Port req) proto now d = (res, db1)"
    by (cases "exec_update db (upd_IP req) (upd_Port req) proto now d")
  obtain g db2 where g: "GetDomain db1 d = (g, db2)" by (cases "GetDomain db1 d")
  then have "domains_tbl db2 = domains_tbl db1" by (rule GetDomain_domains)
  with exec_update_table [OF ex] ex g show ?thesis
    by (cases res) (auto simp: do_update_def)
qed

lemma UpdateDomain_table:
  "domains_tbl (snd (UpdateDomain db d req now)) = domains_tbl db
   \<or> (\<exists>row. domains_tbl db d = Some row \<and> domains_tbl (snd (UpdateDomain db d req now))
         = (domains_tbl db)(d \<mapsto> row\<lparr>col_ip := upd_IP req, col_port := upd_Port req,
              col_protocol := (if upd_Protocol req = '''' then col_protocol row
                               else upd_Protocol req),
              col_updated_at := now\<rparr>))"
proof (cases "upd_Protocol req = ''''")
  case False
  with do_update_table [of db d req "upd_Protocol req" now] show ?thesis
    by (simp add: UpdateDomain_def)
next
  case True
  obtain g db1 where g: "GetDomain db d = (g, db1)" by (cases "GetDomain db d")
  then have same: "domains_tbl db1 = domains_tbl db" by (rule GetDomain_domains)
  show ?thesis
  proof (cases g)
    case (Inl e)
    with True g same show ?thesis by (simp add: UpdateDomain_def)
  next
    case (Inr found)
    show ?thesis
    proof (cases found)
      case None
      with True g same Inr show ?thesis by (simp add: UpdateDomain_def)
    next
      case (Some existing)
      from g Inr Some have "fst (GetDomain db d) = Inr (Some existing)" by simp
      from GetDomain_hit [OF this] obtain row where
        row: "domains_tbl db d = Some row" and p: "Protocol existing = col_protocol row"
        by auto
      from do_update_table [of db1 d req "Protocol existing" now] True g Inr Some same row p
      show ?thesis by (auto simp: UpdateDomain_def)
    qed
  qed
qed

lemma DeleteDomain_table:
  "domains_tbl (snd (DeleteDomain db d)) = domains_tbl db
   \<or> domains_tbl (snd (DeleteDomain db d)) = (domains_tbl db)(d := None)"
  by (cases db rule: next_fault_cases)
     (auto simp: DeleteDomain_def exec_delete_def split: option.splits)

lemma BulkCreateDomains_table:
  "domains_tbl (snd (BulkCreateDomains db reqs now)) = domains_tbl db
   \<or> batch_persisted db reqs now (snd (BulkCreateDomains db reqs now))"
  using BulkCreateDomains_cases [of db reqs now]
  by (auto simp: batch_persisted_def dest!: insert_all_Inr)

lemma schemes_recognized_same:
  "schemes_recognized db \<Longrightarrow> domains_tbl db' = domains_tbl db \<Longrightarrow> schemes_recognized db'"
  by (simp add: schemes_recognized_def)

lemma schemes_recognized_upd:
  "schemes_recognized db \<Longrightarrow> domains_tbl db' = (domains_tbl db)(k \<mapsto> row) \<Longrightarrow>
     recognized (col_protocol row) \<Longrightarrow> schemes_recognized db'"
  by (simp add: schemes_recognized_def)

lemma schemes_recognized_del:
  "schemes_recognized db \<Longrightarrow> domains_tbl db' = (domains_tbl db)(k := None) \<Longrightarrow>
     schemes_recognized db'"
  by (simp add: schemes_recognized_def)

lemma recognized_default:
  "s = '''' \<or> recognized s \<Longrightarrow> recognized (if s = '''' then ''http'' else s)"
  by (auto simp: recognized_def)

lemma apply_op_schemes:
  assumes "schemes_recognized db" and "schemes_given op"
  shows "schemes_recognized (apply_op db op now)"
proof (cases op)
  case (Insert req)
  with assms(2) have "recognized (col_protocol (stored_row req now))"
    by (simp add: schemes_given_def stored_row_def recognized_default)
  with assms(1) CreateDomain_table [of db req now] Insert show ?thesis
    by (auto intro: schemes_recognized_same schemes_recognized_upd)
next
  case (Update d req)
  from UpdateDomain_table [of db d req now]
  have "schemes_recognized (snd (UpdateDomain db d req now))"
  proof
    assume "domains_tbl (snd (UpdateDomain db d req now)) = domains_tbl db"
    with assms(1) show ?thesis by (rule schemes_recognized_same)
  next
    assume "\<exists>row. domains_tbl db d = Some row \<and> domains_tbl (snd (UpdateDomain db d req now))
         = (domains_tbl db)(d \<mapsto> row\<lparr>col_ip := upd_IP req, col_port := upd_Port req,
              col_protocol := (if upd_Protocol req = '''' then col_protocol row
                               else upd_Protocol req),
              col_updated_at := now\<rparr>)"
    then obtain row where row: "domains_tbl db d = Some row"
      and t: "domains_tbl (snd (UpdateDomain db d req now))
         = (domains_tbl db)(d \<mapsto> row\<lparr>col_ip := upd_IP req, col_port := upd_Port req,
              col_protocol := (if upd_Protocol req = '''' then col_protocol row
                               else upd_Protocol req),
              col_updated_at := now\<rparr>)"
      by blast
    from row assms(1) have "recognized (col_protocol row)"
      by (simp add: schemes_recognized_def)
    with assms(2) Update
    have "recognized (if upd_Protocol req = '''' then col_protocol row else upd_Protocol req)"
      by (auto simp: schemes_given_def)
    with assms(1) t show ?thesis
      by (auto intro: schemes_recognized_upd)
  qed
  with Update show ?thesis by simp
next
  case (Delete d)
  with assms(1) DeleteDomain_table [of db d] show ?thesis
    by (auto intro: schemes_recognized_same schemes_recognized_del)
next
  case (BulkInsert reqs)
  have "schemes_recognized (snd (BulkCreateDomains db reqs now))"
    unfolding schemes_recognized_def
  proof (intro allI impI)
    fix d row
    assume row: "domains_tbl (snd (BulkCreateDomains db reqs now)) d = Some row"
    from BulkCreateDomains_table [of db reqs now]
    show "recognized (col_protocol row)"
    proof
      assume "domains_tbl (snd (BulkCreateDomains db reqs now)) = domains_tbl db"
      with row assms(1) show ?thesis by (simp add: schemes_recognized_def)
    next
      assume p: "batch_persisted db reqs now (snd (BulkCreateDomains db reqs now))"
      show ?thesis
      proof (cases "d \<in> req_Domain ` set reqs")
        case True
        then obtain req where req: "req \<in> set reqs" "d = req_Domain req" by auto
        with p row have "row = stored_row req now" by (simp add: batch_persisted_def)
        moreover from req assms(2) BulkInsert
        have "req_Protocol req = '''' \<or> recognized (req_Protocol req)"
          by (simp add: schemes_given_def)
        ultimately show ?thesis by (simp add: stored_row_def recognized_default)
      next
        case False
        with p row assms(1) show ?thesis
          by (simp add: batch_persisted_def schemes_recognized_def)
      qed
    qed
  qed
  with BulkInsert show ?thesis by simp
qed

lemma run_schemes:
  "schemes_recognized db \<Longrightarrow> \<forall>(op, now)\<in>set ops. schemes_given op \<Longrightarrow>
     schemes_recognized (run db ops)"
proof (induction ops arbitrary: db)
  case Nil
  then show ?case by simp
next
  case (Cons a ops)
  obtain op now where a: "a = (op, now)" by (cases a)
  with Cons.prems have "schemes_recognized (apply_op db op now)"
    by (simp add: apply_op_schemes)
  with Cons a show ?case by simp
qed

lemma CreateDomain_Inr:
  assumes "fst (CreateDomain db req now) = Inr x"
  shows "domains_tbl (snd (CreateDomain db req now)) (req_Domain req) = Some (stored_row req now)"
proof -
  let ?proto = "if req_Protocol req = '''' then ''http'' else req_Protocol req"
  obtain res db1 where ex:
    "exec_insert db (req_Domain req) (req_IP req) (req_Port req) ?proto now = (res, db1)"
    by (cases "exec_insert db (req_Domain req) (req_IP req) (req_Port req) ?proto now")
  obtain g db2 where g: "GetDomain db1 (req_Domain req) = (g, db2)"
    by (cases "GetDomain db1 (req_Domain req)")
  then have same: "domains_tbl db2 = domains_tbl db1" by (rule GetDomain_domains)
  from assms ex have None: "res = None"
    by (cases res) (simp_all add: CreateDomain_def Let_def)
  from exec_insert_None(2) [OF ex [unfolded None]] ex None g same show ?thesis
    by (simp add: CreateDomain_def Let_def stored_row_def)
qed

lemma BulkCreateDomains_Inr:
  assumes "fst (BulkCreateDomains db reqs now) = Inr created"
  shows "batch_persisted db reqs now (snd (BulkCreateDomains db reqs now))"
  using BulkCreateDomains_cases [of db reqs now] assms
  by (auto simp: batch_persisted_def dest!: insert_all_Inr)

lemma exec_update_affected:
  assumes "exec_update db i p proto now d = (Inr n, db')" and "n \<noteq> 0"
  shows "\<exists>row. domains_tbl db d = Some row \<and> domains_tbl db' = (domains_tbl db)(d \<mapsto>
             row\<lparr>col_ip := i, col_port := p, col_protocol := proto, col_updated_at := now\<rparr>)"
  using assms
  by (cases db rule: next_fault_cases)
     (auto simp: exec_update_def split: option.splits)

lemma do_update_Some:
  assumes "fst (do_update db d req proto now) = Inr (Some x)"
  shows "map_option col_protocol (domains_tbl (snd (do_update db d req proto now)) d) = Some proto
         \<and> Protocol x = proto"
proof -
  obtain res db1 where ex: "exec_update db (upd_IP req) (upd_Port req) proto now d = (res, db1)"
    by (cases "exec_update db (upd_IP req) (upd_Port req) proto now d")
  obtain g db2 where g: "GetDomain db1 d = (g, db2)" by (cases "GetDomain db1 d")
  then have same: "domains_tbl db2 = domains_tbl db1" by (rule GetDomain_domains)
  from assms ex obtain n where n: "res = Inr n" "n \<noteq> 0"
    by (cases res) (auto simp: do_update_def split: if_splits)
  from exec_update_affected [OF ex [unfolded n(1)] n(2)] obtain row where
    t: "domains_tbl db1 = (domains_tbl db)(d \<mapsto>
             row\<lparr>col_ip := upd_IP req, col_port := upd_Port req, col_protocol := proto,
                 col_updated_at := now\<rparr>)"
    by blast
  from assms ex n g have r: "do_update db d req proto now = (g, db2)" "g = Inr (Some x)"
    by (simp_all add: do_update_def)
  from r(2) g have "fst (GetDomain db1 d) = Inr (Some x)" by simp
  from GetDomain_hit [OF this] t have "Protocol x = proto" by auto
  with r same t show ?thesis by simp
qed

lemma UpdateDomain_given:
  assumes "fst (UpdateDomain db d req now) = Inr (Some x)" and "upd_Protocol req \<noteq> ''''"
  shows "map_option col_protocol (domains_tbl (snd (UpdateDomain db d req now)) d)
           = Some (upd_Protocol req) \<and> Protocol x = upd_Protocol req"
  using assms do_update_Some [of db d req "upd_Protocol req" now x]
  by (simp add: UpdateDomain_def)

lemma CreateDomain_healthy:
  assumes "faults db = []" and "domains_tbl db (req_Domain req) = None"
  shows "\<exists>x. fst (CreateDomain db req now) = Inr (Some x)"
proof -
  let ?proto = "if req_Protocol req = '''' then ''http'' else req_Protocol req"
  from exec_insert_healthy [OF assms, of "req_IP req" "req_Port req" ?proto now]
  obtain db1 where ex:
    "exec_insert db (req_Domain req) (req_IP req) (req_Port req) ?proto now = (None, db1)"
    and h: "faults db1 = []" by blast
  from exec_insert_None(2) [OF ex] have "domains_tbl db1 (req_Domain req) \<noteq> None" by simp
  with ex h show ?thesis
    by (auto simp: CreateDomain_def Let_def GetDomain_healthy)
qed

lemma UpdateDomain_healthy:
  assumes "faults db = []" and "domains_tbl db d = Some row"
  shows "\<exists>x. fst (UpdateDomain db d req now) = Inr (Some x)"
  using assms
  by (simp add: UpdateDomain_def do_update_def GetDomain_healthy exec_update_healthy)

lemma run_sample:
  "domains_tbl (run db_empty ops_sample) =
     [''a.com'' \<mapsto> \<lparr>col_ip = ''10.0.0.2'', col_port = 9090, col_protocol = ''https'',
                      col_created_at = 1, col_updated_at = 2\<rparr>,
      ''b.com'' \<mapsto> \<lparr>col_ip = ''10.0.0.2'', col_port = 80, col_protocol = ''http'',
                      col_created_at = 3, col_updated_at = 3\<rparr>]"
  by (simp add: ops_sample_def db_empty_def req_https_def upd_no_scheme_def batch_ok_def
      CreateDomain_def UpdateDomain_def do_update_def DeleteDomain_def BulkCreateDomains_def
      exec_insert_def exec_update_def exec_delete_def GetDomain_def query_row_def next_fault_def
      Rollback_def Let_def fun_upd_twist)

text \<open>
  C4, as amended. The registry stores the scheme a request gives and does not check it. An
  insert and a bulk insert that succeed store \<open>http\<close> for an omitted scheme and the given
  scheme otherwise, and an update that succeeds with a scheme given stores that scheme; when
  the storage works, an insert of a new domain, a bulk insert without a duplicate and an
  update of a stored domain succeed. So when every stored scheme is recognized and every
  request of a run of inserts, updates, deletes and bulk inserts gives a recognized scheme
  or none, every stored scheme is recognized after the run.
\<close>

theorem registry_keeps_recognized_schemes:
  "(schemes_recognized db \<and> (\<forall>(op, now)\<in>set ops. schemes_given op)
      \<longrightarrow> schemes_recognized (run db ops))
   \<and> (\<forall>x. fst (CreateDomain db req now) = Inr x \<longrightarrow>
        map_option col_protocol (domains_tbl (snd (CreateDomain db req now)) (req_Domain req))
          = Some (default_or_given (req_Protocol req)))
   \<and> (\<forall>created. fst (BulkCreateDomains db reqs now) = Inr created \<longrightarrow>
        (\<forall>q\<in>set reqs.
           map_option col_protocol (domains_tbl (snd (BulkCreateDomains db reqs now)) (req_Domain q))
             = Some (default_or_given (req_Protocol q))))
   \<and> (\<forall>x. fst (UpdateDomain db domain upd now) = Inr (Some x) \<and> upd_Protocol upd \<noteq> '''' \<longrightarrow>
        map_option col_protocol (domains_tbl (snd (UpdateDomain db domain upd now)) domain)
          = Some (upd_Protocol upd)
        \<and> Protocol x = upd_Protocol upd)
   \<and> (faults db = [] \<and> domains_tbl db (req_Domain req) = None \<longrightarrow>
        (\<exists>x. fst (CreateDomain db req now) = Inr (Some x)))
   \<and> (faults db = [] \<and> \<not> batch_duplicate db reqs \<longrightarrow>
        (\<exists>created. fst (BulkCreateDomains db reqs now) = Inr created))
   \<and> (faults db = [] \<and> domains_tbl db domain \<noteq> None \<longrightarrow>
        (\<exists>x. fst (UpdateDomain db domain upd now) = Inr (Some x)))"
proof -
  have 1: "schemes_recognized db \<and> (\<forall>(op, now)\<in>set ops. schemes_given op)
      \<longrightarrow> schemes_recognized (run db ops)"
    using run_schemes [of db ops] by blast
  have 2: "\<forall>x. fst (CreateDomain db req now) = Inr x \<longrightarrow>
        map_option col_protocol (domains_tbl (snd (CreateDomain db req now)) (req_Domain req))
          = Some (default_or_given (req_Protocol req))"
    using CreateDomain_Inr [of db req now] by (auto simp: stored_row_def default_or_given_def)
  have 3: "\<forall>created. fst (BulkCreateDomains db reqs now) = Inr created \<longrightarrow>
        (\<forall>q\<in>set reqs.
           map_option col_protocol (domains_tbl (snd (BulkCreateDomains db reqs now)) (req_Domain q))
             = Some (default_or_given (req_Protocol q)))"
    using BulkCreateDomains_Inr [of db reqs now]
    by (auto simp: batch_persisted_def stored_row_def default_or_given_def)
  have 4: "\<forall>x. fst (UpdateDomain db domain upd now) = Inr (Some x) \<and> upd_Protocol upd \<noteq> '''' \<longrightarrow>
        map_option col_protocol (domains_tbl (snd (UpdateDomain db domain upd now)) domain)
          = Some (upd_Protocol upd)
        \<and> Protocol x = upd_Protocol upd"
    using UpdateDomain_given [of db domain upd now] by blast
  have 5: "faults db = [] \<and> domains_tbl db (req_Domain req) = None \<longrightarrow>
        (\<exists>x. fst (CreateDomain db req now) = Inr (Some x))"
    using CreateDomain_healthy [of db req now] by blast
  have 6: "faults db = [] \<and> \<not> batch_duplicate db reqs \<longrightarrow>
        (\<exists>created. fst (BulkCreateDomains db reqs now) = Inr created)"
    using BulkCreateDomains_healthy [of db reqs now] by fastforce
  have 7: "faults db = [] \<and> domains_tbl db domain \<noteq> None \<longrightarrow>
        (\<exists>x. fst (UpdateDomain db domain upd now) = Inr (Some x))"
    using UpdateDomain_healthy [of db domain _ upd now] by blast
  from 1 2 3 4 5 6 7 show ?thesis by blast
qed

theorem registry_keeps_recognized_schemes_witness:
  "schemes_recognized db_empty
   \<and> schemes_given (Insert req_https) \<and> schemes_given (Update ''a.com'' upd_no_scheme)
   \<and> schemes_given (BulkInsert batch_ok) \<and> schemes_given (Delete ''c.com'')
   \<and> schemes_recognized (run db_empty ops_sample)
   \<and> map_option col_protocol (domains_tbl (run db_empty ops_sample) ''a.com'') = Some ''https''
   \<and> map_option col_protocol (domains_tbl (run db_empty ops_sample) ''b.com'') = Some ''http''
   \<and> faults db_a = [] \<and> domains_tbl db_a ''b.com'' = None \<and> req_Protocol req_b = ''''
   \<and> map_option col_protocol (domains_tbl (snd (CreateDomain db_a req_b 9)) ''b.com'')
        = Some ''http''
   \<and> \<not> batch_duplicate db_a batch_ok
   \<and> map_option col_protocol (domains_tbl (snd (BulkCreateDomains db_a batch_ok 9)) ''b.com'')
        = Some ''http''
   \<and> map_option col_protocol (domains_tbl (snd (BulkCreateDomains db_a batch_ok 9)) ''c.com'')
        = Some ''https''
   \<and> map_option col_protocol (domains_tbl db_a ''a.com'') = Some ''https''
   \<and> upd_Protocol upd_http = ''http''
   \<and> map_option col_protocol (domains_tbl (snd (UpdateDomain db_a ''a.com'' upd_http 9)) ''a.com'')
        = Some ''http''"
proof -
  have e: "schemes_recognized db_empty"
    by (simp add: schemes_recognized_def db_empty_def)
  have g: "schemes_given (Insert req_https)" "schemes_given (Update ''a.com'' upd_no_scheme)"
    "schemes_given (BulkInsert batch_ok)" "schemes_given (Delete ''c.com'')"
    by (simp_all add: schemes_given_def recognized_def req_https_def upd_no_scheme_def
        batch_ok_def)
  have h: "\<forall>(op, now)\<in>set ops_sample. schemes_given op"
    using g by (simp add: ops_sample_def)
  from registry_keeps_recognized_schemes [of db_empty ops_sample] e h
  have r: "schemes_recognized (run db_empty ops_sample)"
    by blast
  have a: "faults db_a = []" "domains_tbl db_a ''b.com'' = None"
    "domains_tbl db_a ''a.com'' \<noteq> None"
    "map_option col_protocol (domains_tbl db_a ''a.com'') = Some ''https''"
    by (simp_all add: db_a_def row_a_def)
  have q: "req_Domain req_b = ''b.com''" "req_Protocol req_b = ''''"
    "upd_Protocol upd_http = ''http''"
    by (simp_all add: req_b_def upd_http_def)
  note T = registry_keeps_recognized_schemes [of db_a "[]" req_b 9 batch_ok "''a.com''" upd_http]
  from T a q have "\<exists>x. fst (CreateDomain db_a req_b 9) = Inr (Some x)"
    by simp
  with T q have c: "map_option col_protocol (domains_tbl (snd (CreateDomain db_a req_b 9)) ''b.com'')
        = Some ''http''"
    by (auto simp: default_or_given_def)
  from T a batch_ok_fresh have "\<exists>created. fst (BulkCreateDomains db_a batch_ok 9) = Inr created"
    by blast
  with T have "\<forall>q\<in>set batch_ok.
           map_option col_protocol (domains_tbl (snd (BulkCreateDomains db_a batch_ok 9)) (req_Domain q))
             = Some (default_or_given (req_Protocol q))"
    by blast
  then have b: "map_option col_protocol (domains_tbl (snd (BulkCreateDomains db_a batch_ok 9)) ''b.com'')
        = Some ''http''"
     "map_option col_protocol (domains_tbl (snd (BulkCreateDomains db_a batch_ok 9)) ''c.com'')
        = Some ''https''"
    by (simp_all add: batch_ok_def default_or_given_def)
  from T a have "\<exists>x. fst (UpdateDomain db_a ''a.com'' upd_http 9) = Inr (Some x)"
    by blast
  with T q have u: "map_option col_protocol (domains_tbl (snd (UpdateDomain db_a ''a.com'' upd_http 9)) ''a.com'')
        = Some ''http''"
    by auto
  from e g r a q c b u batch_ok_fresh show ?thesis
    by (simp add: run_sample)
qed

text \<open>
  C4 as stated fails: the API accepts an insert with the scheme \<open>ftp\<close> and the registry
  stores it.
\<close>

theorem scheme_ftp_persists:
  "StatusCode (fst (Handlers_CreateDomain (decode_create_sample req_ftp) 1
      (req_in ''api.example.com'') db_empty)) = 201
   \<and> map_option col_protocol
        (domains_tbl (snd (Handlers_CreateDomain (decode_create_sample req_ftp) 1
           (req_in ''api.example.com'') db_empty)) ''f.com'') = Some ''ftp''
   \<and> \<not> recognized ''ftp''
   \<and> \<not> schemes_recognized (snd (Handlers_CreateDomain (decode_create_sample req_ftp) 1
           (req_in ''api.example.com'') db_empty))"
proof -
  have s: "snd (Handlers_CreateDomain (decode_create_sample req_ftp) 1
           (req_in ''api.example.com'') db_empty)
         = \<lparr>domains_tbl = [''f.com'' \<mapsto> \<lparr>col_ip = ''10.0.0.5'', col_port = 21,
               col_protocol = ''ftp'', col_created_at = 1, col_updated_at = 1\<rparr>], faults = []\<rparr>"
    and c: "StatusCode (fst (Handlers_CreateDomain (decode_create_sample req_ftp) 1
      (req_in ''api.example.com'') db_empty)) = 201"
    by (simp_all add: Handlers_CreateDomain_def decode_create_sample_def req_ftp_def Let_def
        CreateDomain_def exec_insert_def GetDomain_def query_row_def next_fault_def db_empty_def)
  have n: "\<not> recognized ''ftp''" by (simp add: recognized_def)
  have "\<not> schemes_recognized \<lparr>domains_tbl = [''f.com'' \<mapsto> \<lparr>col_ip = ''10.0.0.5'', col_port = 21,
               col_protocol = ''ftp'', col_created_at = 1, col_updated_at = 1\<rparr>], faults = []\<rparr>"
    using n by (auto simp: schemes_recognized_def)
  with s c n show ?thesis by simp
qed

section \<open>Validation of creation requests\<close>

lemma validate_all_Inl:
  "validate_all reqs n = Inl k \<Longrightarrow>
     n \<le> k \<and> k - n < length reqs \<and> missing_field (reqs ! (k - n))"
proof (induction reqs arbitrary: n)
  case Nil
  then show ?case by simp
next
  case (Cons req reqs)
  show ?case
  proof (cases "missing_field req")
    case True
    with Cons.prems show ?thesis by (auto simp: missing_field_def)
  next
    case False
    with Cons.prems have "validate_all reqs (Suc n) = Inl k"
      by (auto simp: missing_field_def split: sum.splits)
    from Cons.IH [OF this] have "Suc n \<le> k" "k - Suc n < length reqs"
      "missing_field (reqs ! (k - Suc n))" by auto
    then show ?thesis by (auto simp: nth_Cons')
  qed
qed

lemma validate_all_Inr:
  "validate_all reqs n = Inr reqs' \<Longrightarrow>
     reqs' = map with_default reqs \<and> (\<forall>req\<in>set reqs. \<not> missing_field req)"
proof (induction reqs arbitrary: n reqs')
  case Nil
  then show ?case by simp
next
  case (Cons req reqs)
  from Cons.prems have ok: "\<not> missing_field req"
    by (auto simp: missing_field_def split: if_splits)
  with Cons.prems obtain rest where r: "validate_all reqs (Suc n) = Inr rest"
    and e: "reqs' = with_default req # rest"
    by (auto simp: missing_field_def with_default_def split: sum.splits)
  from Cons.IH [OF r] ok e show ?case by simp
qed

lemma validate_all_missing:
  "\<exists>req\<in>set reqs. missing_field req \<Longrightarrow> \<exists>k. validate_all reqs n = Inl k"
  using validate_all_Inr [of reqs n] by (cases "validate_all reqs n") auto

lemma with_default_fields:
  "req_Domain (with_default req) = req_Domain req" "req_IP (with_default req) = req_IP req"
  "req_Port (with_default req) = req_Port req"
  by (simp_all add: with_default_def)

lemma new_rows_filled_same: "domains_tbl db' = domains_tbl db \<Longrightarrow> new_rows_filled db db'"
  by (simp add: new_rows_filled_def)

lemma Handlers_CreateDomain_new_rows:
  "new_rows_filled db (snd (Handlers_CreateDomain decode now r db))"
proof (cases "decode (ReqBody r)")
  case (Inl e)
  then show ?thesis by (simp add: Handlers_CreateDomain_def new_rows_filled_same)
next
  case (Inr req)
  show ?thesis
  proof (cases "missing_field req")
    case True
    with Inr show ?thesis
      by (simp add: Handlers_CreateDomain_def missing_field_def new_rows_filled_same)
  next
    case False
    let ?req = "with_default req"
    have snd: "snd (Handlers_CreateDomain decode now r db) = snd (CreateDomain db ?req now)"
      using Inr False
      by (cases "CreateDomain db ?req now")
         (auto simp: Handlers_CreateDomain_def missing_field_def with_default_def Let_def
               split: sum.splits)
    from CreateDomain_table [of db ?req now] False
    have "new_rows_filled db (snd (CreateDomain db ?req now))"
      by (auto simp: new_rows_filled_def missing_field_def stored_row_def with_default_fields
               split: if_splits)
    with snd show ?thesis by simp
  qed
qed

lemma batch_persisted_new_rows:
  assumes "batch_persisted db reqs now db'" and "\<forall>req\<in>set reqs. \<not> missing_field req"
  shows "new_rows_filled db db'"
  unfolding new_rows_filled_def
proof (intro allI impI)
  fix d row
  assume a: "domains_tbl db' d = Some row \<and> domains_tbl db d \<noteq> Some row"
  with assms(1) have "d \<in> req_Domain ` set reqs"
    by (auto simp: batch_persisted_def)
  then obtain req where req: "req \<in> set reqs" "d = req_Domain req" by auto
  with assms(1) a have "row = stored_row req now" by (simp add: batch_persisted_def)
  with req assms(2) show "col_port row \<noteq> 0 \<and> col_ip row \<noteq> '''' \<and> d \<noteq> ''''"
    by (auto simp: stored_row_def missing_field_def)
qed

lemma Handlers_BulkCreateDomains_new_rows:
  "new_rows_filled db (snd (Handlers_BulkCreateDomains ReadAll decode_array decode_object now r db))"
proof (cases "bulk_decode ReadAll decode_array decode_object r")
  case None
  then show ?thesis
    by (auto simp: Handlers_BulkCreateDomains_def bulk_decode_def new_rows_filled_same
             split: sum.splits)
next
  case (Some reqs)
  then have h: "Handlers_BulkCreateDomains ReadAll decode_array decode_object now r db =
      (if length reqs = 0 then (http_Error ''No domains provided'' 400, db)
       else
         (case validate_all reqs 0 of
            Inl i \<Rightarrow>
              (http_Error (''Missing required fields in domain at index '' @ itoa (int i)
                           @ '': domain, ip, port'') 400, db)
          | Inr domains' \<Rightarrow>
              (case BulkCreateDomains db domains' now of
                 (Inl err, db') \<Rightarrow>
                   (http_Error (''Failed to create domains: '' @ Error err) 500, db')
               | (Inr createdDomains, db') \<Rightarrow>
                   (\<lparr>StatusCode = 201, Body = JSON_Domains createdDomains\<rparr>, db'))))"
    by (auto simp: Handlers_BulkCreateDomains_def bulk_decode_def split: sum.splits)
  show ?thesis
  proof (cases "validate_all reqs 0")
    case (Inl i)
    with h show ?thesis by (simp add: new_rows_filled_same)
  next
    case (Inr reqs')
    from validate_all_Inr [OF Inr] have ok: "\<forall>req\<in>set reqs'. \<not> missing_field req"
      by (auto simp: missing_field_def with_default_fields)
    from BulkCreateDomains_table [of db reqs' now] ok
    have "new_rows_filled db (snd (BulkCreateDomains db reqs' now))"
      by (auto intro: new_rows_filled_same batch_persisted_new_rows)
    with h Inr show ?thesis
      by (cases "BulkCreateDomains db reqs' now")
         (auto simp: new_rows_filled_same split: sum.splits)
  qed
qed

lemma Handlers_BulkCreateDomains_missing:
  assumes "bulk_decode ReadAll decode_array decode_object r = Some reqs"
      and "\<exists>req\<in>set reqs. missing_field req"
  shows "\<exists>i<length reqs. missing_field (reqs ! i) \<and>
           Handlers_BulkCreateDomains ReadAll decode_array decode_object now r db
             = (http_Error (''Missing required fields in domain at index '' @ itoa (int i)
                            @ '': domain, ip, port'') 400, db)"
proof -
  from validate_all_missing [OF assms(2), of 0] obtain k where k: "validate_all reqs 0 = Inl k"
    by blast
  from validate_all_Inl [OF k] have "k < length reqs" "missing_field (reqs ! k)" by auto
  moreover from assms(2) have "reqs \<noteq> []" by auto
  ultimately show ?thesis
    using assms(1) k
    by (auto simp: Handlers_BulkCreateDomains_def bulk_decode_def split: sum.splits)
qed

lemma itoa_1: "itoa 1 = ''1''"
  by code_simp

text \<open>
  C8, as amended. A creation request whose port is zero or whose address or domain is empty
  is rejected with the response 400, by the single and by the bulk creation, and the
  registry is not touched. Every row that either creation adds to the table has a port other
  than zero, an address and a domain that are not empty. The port is not checked against a
  range.
\<close>

theorem create_requires_fields:
  "(decode (ReqBody r) = Inr req \<and> (req_Port req = 0 \<or> req_IP req = '''' \<or> req_Domain req = '''')
      \<longrightarrow> Handlers_CreateDomain decode now r db
            = (http_Error ''Missing required fields: domain, ip, port'' 400, db))
   \<and> new_rows_filled db (snd (Handlers_CreateDomain decode now r db))
   \<and> (bulk_decode ReadAll decode_array decode_object r = Some reqs
        \<and> (\<exists>req\<in>set reqs. req_Port req = 0 \<or> req_IP req = '''' \<or> req_Domain req = '''')
      \<longrightarrow> (\<exists>i<length reqs. missing_field (reqs ! i) \<and>
             Handlers_BulkCreateDomains ReadAll decode_array decode_object now r db
               = (http_Error (''Missing required fields in domain at index '' @ itoa (int i)
                              @ '': domain, ip, port'') 400, db)))
   \<and> new_rows_filled db
        (snd (Handlers_BulkCreateDomains ReadAll decode_array decode_object now r db))"
proof -
  have "decode (ReqBody r) = Inr req \<and> (req_Port req = 0 \<or> req_IP req = '''' \<or> req_Domain req = '''')
      \<longrightarrow> Handlers_CreateDomain decode now r db
            = (http_Error ''Missing required fields: domain, ip, port'' 400, db)"
    by (auto simp: Handlers_CreateDomain_def)
  moreover have "bulk_decode ReadAll decode_array decode_object r = Some reqs
        \<and> (\<exists>req\<in>set reqs. req_Port req = 0 \<or> req_IP req = '''' \<or> req_Domain req = '''')
      \<longrightarrow> (\<exists>i<length reqs. missing_field (reqs ! i) \<and>
             Handlers_BulkCreateDomains ReadAll decode_array decode_object now r db
               = (http_Error (''Missing required fields in domain at index '' @ itoa (int i)
                              @ '': domain, ip, port'') 400, db))"
    using Handlers_BulkCreateDomains_missing [of ReadAll decode_array decode_object r reqs now db]
    by (auto simp: missing_field_def)
  ultimately show ?thesis
    using Handlers_CreateDomain_new_rows Handlers_BulkCreateDomains_new_rows by blast
qed

theorem create_requires_fields_witness:
  "decode_create_sample req_zero (ReqBody (req_in ''api.example.com'')) = Inr req_zero
   \<and> req_Port req_zero = 0
   \<and> Handlers_CreateDomain (decode_create_sample req_zero) 5 (req_in ''api.example.com'') db_a
        = (http_Error ''Missing required fields: domain, ip, port'' 400, db_a)
   \<and> bulk_decode ReadAll_sample (decode_array_sample batch_bad) decode_object_sample
        (req_in ''api.example.com'') = Some batch_bad
   \<and> req_IP (batch_bad ! 1) = ''''
   \<and> Handlers_BulkCreateDomains ReadAll_sample (decode_array_sample batch_bad)
        decode_object_sample 5 (req_in ''api.example.com'') db_a
        = (http_Error ''Missing required fields in domain at index 1: domain, ip, port'' 400, db_a)
   \<and> new_rows_filled db_empty
        (snd (Handlers_CreateDomain (decode_create_sample req_https) 1
           (req_in ''api.example.com'') db_empty))
   \<and> new_rows_filled db_a
        (snd (Handlers_BulkCreateDomains ReadAll_sample (decode_array_sample batch_bad)
           decode_object_sample 5 (req_in ''api.example.com'') db_a))"
proof -
  have d: "decode_create_sample req_zero (ReqBody (req_in ''api.example.com'')) = Inr req_zero"
    by (simp add: decode_create_sample_def)
  have z: "req_Port req_zero = 0" by (simp add: req_zero_def)
  have b: "bulk_decode ReadAll_sample (decode_array_sample batch_bad) decode_object_sample
        (req_in ''api.example.com'') = Some batch_bad"
    by (simp add: bulk_decode_def ReadAll_sample_def decode_array_sample_def)
  have m: "req_IP (batch_bad ! 1) = ''''" by (simp add: batch_bad_def)
  have h: "Handlers_BulkCreateDomains ReadAll_sample (decode_array_sample batch_bad)
        decode_object_sample 5 (req_in ''api.example.com'') db_a
        = (http_Error ''Missing required fields in domain at index 1: domain, ip, port'' 400, db_a)"
    by (simp add: Handlers_BulkCreateDomains_def ReadAll_sample_def decode_array_sample_def
        batch_bad_def itoa_1)
  from create_requires_fields [of "decode_create_sample req_zero" "req_in ''api.example.com''"
         req_zero 5 db_a ReadAll_sample "decode_array_sample batch_bad" decode_object_sample
         batch_bad]
       create_requires_fields [of "decode_create_sample req_https" "req_in ''api.example.com''"
         req_https 1 db_empty ReadAll_sample "decode_array_sample batch_bad" decode_object_sample
         batch_bad]
       d z b m h
  show ?thesis by simp
qed

text \<open>
  C8 as stated fails: a creation request with the port 70000 is accepted and stored.
\<close>

theorem port_out_of_range_accepted:
  "StatusCode (fst (Handlers_CreateDomain (decode_create_sample req_big) 1
      (req_in ''api.example.com'') db_empty)) = 201
   \<and> map_option col_port
        (domains_tbl (snd (Handlers_CreateDomain (decode_create_sample req_big) 1
           (req_in ''api.example.com'') db_empty)) ''p.com'') = Some 70000
   \<and> \<not> (1 \<le> (70000 :: int) \<and> (70000 :: int) \<le> 65535)"
  by (simp add: Handlers_CreateDomain_def decode_create_sample_def req_big_def Let_def
      CreateDomain_def exec_insert_def GetDomain_def query_row_def next_fault_def db_empty_def)

end
